theory Spec2Isabelle
  imports Main
begin

section \<open>Chunking of string diffs (diffmodel.ts)\<close>

subsection \<open>Positions, ranges and chunks\<close>

text \<open>
  A CodeMirror position \<^verbatim>\<open>{line, ch}\<close>. Line numbers are JavaScript numbers; the
  chunk builder subtracts a running offset from them, so they are integers here.
\<close>

record Pos =
  line :: int
  ch :: int

text \<open>
  \<^verbatim>\<open>DiffRangePos\<close> (declared in diffutil.ts, used field by field in
  \<^verbatim>\<open>getChunks\<close>): the fields \<^verbatim>\<open>from\<close> and \<^verbatim>\<open>to\<close> are named
  \<open>from_pos\<close> and \<open>to_pos\<close>.
\<close>

record DiffRangePos =
  from_pos :: Pos
  to_pos :: Pos
  chunkStartLine :: bool
  endsOnNewline :: bool

text \<open>
  Short forms of \<^verbatim>\<open>CodeMirror.Pos(line, ch)\<close>, of
  \<^verbatim>\<open>new DiffRangePos(from, to, chunkStartLine, endsOnNewline)\<close> and, below, of
  \<^verbatim>\<open>new Chunk(editFrom, editTo, origFrom, origTo)\<close>.
\<close>

abbreviation CodeMirror_Pos :: "int \<Rightarrow> int \<Rightarrow> Pos" where
  "CodeMirror_Pos l c \<equiv> \<lparr>line = l, ch = c\<rparr>"

abbreviation DiffRangePos_new :: "Pos \<Rightarrow> Pos \<Rightarrow> bool \<Rightarrow> bool \<Rightarrow> DiffRangePos" where
  "DiffRangePos_new f t csl eon \<equiv>
     \<lparr>from_pos = f, to_pos = t, chunkStartLine = csl, endsOnNewline = eon\<rparr>"

text \<open>The class \<^verbatim>\<open>Chunk\<close> with its two membership tests.\<close>

record Chunk =
  editFrom :: int
  editTo :: int
  origFrom :: int
  origTo :: int

abbreviation Chunk_new :: "int \<Rightarrow> int \<Rightarrow> int \<Rightarrow> int \<Rightarrow> Chunk" where
  "Chunk_new ef et orf ot \<equiv> \<lparr>editFrom = ef, editTo = et, origFrom = orf, origTo = ot\<rparr>"

definition inEdit :: "Chunk \<Rightarrow> int \<Rightarrow> bool" where
  "inEdit c l \<longleftrightarrow> l \<ge> editFrom c \<and> l \<le> editTo c"

definition inOrig :: "Chunk \<Rightarrow> int \<Rightarrow> bool" where
  "inOrig c l \<longleftrightarrow> l \<ge> origFrom c \<and> l \<le> origTo c"

subsection \<open>The loop of \<^verbatim>\<open>StringDiffModel.getChunks\<close>\<close>

text \<open>
  ``Figure out which element to take next'' when both lists still have an entry:
  \<open>ra\<close> is the next addition, \<open>rd\<close> the next deletion. The result is the value
  the source assigns to \<^verbatim>\<open>isAddition\<close>.
\<close>

definition takeAddition :: "DiffRangePos \<Rightarrow> DiffRangePos \<Rightarrow> int \<Rightarrow> bool" where
  "takeAddition ra rd editOffset \<longleftrightarrow>
     line (from_pos ra) < line (from_pos rd) - editOffset \<or>
     (line (from_pos ra) = line (from_pos rd) - editOffset \<and>
      ch (from_pos ra) \<le> ch (from_pos rd))"

text \<open>
  The head of the loop: the cursors \<^verbatim>\<open>ia\<close> and \<^verbatim>\<open>id\<close> are the remainders of the two
  lists. The result is \<open>None\<close> when both are exhausted and the loop leaves; otherwise
  it holds \<^verbatim>\<open>isAddition\<close>, the range taken (\<^verbatim>\<open>additions[ia++]\<close> or
  \<^verbatim>\<open>deletions[id++]\<close>) and the two remainders after the increment.
\<close>

fun chooseNext ::
  "DiffRangePos list \<Rightarrow> DiffRangePos list \<Rightarrow> int
     \<Rightarrow> (bool \<times> DiffRangePos \<times> DiffRangePos list \<times> DiffRangePos list) option" where
  "chooseNext (ra # as) (rd # ds) editOffset =
     (if takeAddition ra rd editOffset then Some (True, ra, as, rd # ds)
      else Some (False, rd, ra # as, ds))"
| "chooseNext (ra # as) [] editOffset = Some (True, ra, as, [])"
| "chooseNext [] (rd # ds) editOffset = Some (False, rd, [], ds)"
| "chooseNext [] [] editOffset = None"

text \<open>
  The choice as the specification words it (section 4.2, step 2): the deletion's
  original-side starting line, its \<^verbatim>\<open>from.line\<close> minus \<^verbatim>\<open>editOffset\<close>, is strictly
  earlier than the addition's, or equal with an earlier or equal column; and the two
  ranges start at the same normalized position.
\<close>

definition deletionEarlier :: "DiffRangePos \<Rightarrow> DiffRangePos \<Rightarrow> int \<Rightarrow> bool" where
  "deletionEarlier ra rd editOffset \<longleftrightarrow>
     line (from_pos rd) - editOffset < line (from_pos ra) \<or>
     (line (from_pos rd) - editOffset = line (from_pos ra) \<and>
      ch (from_pos rd) \<le> ch (from_pos ra))"

definition sameNormalizedPosition :: "DiffRangePos \<Rightarrow> DiffRangePos \<Rightarrow> int \<Rightarrow> bool" where
  "sameNormalizedPosition ra rd editOffset \<longleftrightarrow>
     line (from_pos rd) - editOffset = line (from_pos ra) \<and>
     ch (from_pos rd) = ch (from_pos ra)"

definition linediff :: "DiffRangePos \<Rightarrow> int" where
  "linediff r = line (to_pos r) - line (from_pos r) + (if endsOnNewline r then 1 else 0)"

definition firstLineNew :: "DiffRangePos \<Rightarrow> bool" where
  "firstLineNew r \<longleftrightarrow> ch (from_pos r) = 0 \<and> linediff r > 0"

definition startOffset :: "DiffRangePos \<Rightarrow> int" where
  "startOffset r = (if chunkStartLine r then 0 else 1)"

definition endOffset :: "DiffRangePos \<Rightarrow> int" where
  "endOffset r = (if chunkStartLine r \<and> endsOnNewline r \<and> firstLineNew r then 0 else 1)"

text \<open>
  The first half of the loop body after the range is chosen: an open chunk is either
  extended (on the orig side by an addition, on the edit side by a deletion) or pushed
  onto \<^verbatim>\<open>chunks\<close> and closed.
\<close>

definition extendOrClose ::
  "bool \<Rightarrow> DiffRangePos \<Rightarrow> Chunk option \<Rightarrow> Chunk list \<Rightarrow> Chunk option \<times> Chunk list" where
  "extendOrClose isAdd r current chunks =
     (case current of
        None \<Rightarrow> (None, chunks)
      | Some c \<Rightarrow>
          if isAdd then
            (if inOrig c (line (from_pos r))
             then (Some (c\<lparr>origTo := max (origTo c) (line (to_pos r) + 1)\<rparr>), chunks)
             else (None, chunks @ [c]))
          else
            (if inEdit c (line (from_pos r))
             then (Some (c\<lparr>editTo := max (editTo c) (line (to_pos r) + 1)\<rparr>), chunks)
             else (None, chunks @ [c])))"

text \<open>The second half: with no chunk open, a new one is opened for the range.\<close>

definition openChunk :: "bool \<Rightarrow> DiffRangePos \<Rightarrow> int \<Rightarrow> Chunk" where
  "openChunk isAdd r editOffset =
     (if isAdd then
        (let startOrig = line (from_pos r); startEdit = startOrig + editOffset in
         \<lparr>editFrom = startEdit + startOffset r,
          editTo = startEdit + endOffset r,
          origFrom = startOrig + startOffset r,
          origTo = startOrig + endOffset r + linediff r\<rparr>)
      else
        (let startEdit = line (from_pos r); startOrig = startEdit - editOffset in
         \<lparr>editFrom = startEdit + startOffset r,
          editTo = startEdit + endOffset r + linediff r,
          origFrom = startOrig + startOffset r,
          origTo = startOrig + endOffset r\<rparr>))"

text \<open>
  One pass of the loop body for the chosen range: the new \<^verbatim>\<open>editOffset\<close>, the open
  chunk and the chunks pushed so far.
\<close>

definition consume ::
  "bool \<Rightarrow> DiffRangePos \<Rightarrow> int \<Rightarrow> Chunk option \<Rightarrow> Chunk list
     \<Rightarrow> int \<times> Chunk option \<times> Chunk list" where
  "consume isAdd r editOffset current chunks =
     (case extendOrClose isAdd r current chunks of
        (current', chunks') \<Rightarrow>
          (editOffset + (if isAdd then - linediff r else linediff r),
           Some (case current' of None \<Rightarrow> openChunk isAdd r editOffset | Some c \<Rightarrow> c),
           chunks'))"

lemma chooseNext_shorter:
  "chooseNext as ds editOffset = Some (isAdd, r, as', ds')
     \<Longrightarrow> length as' + length ds' < length as + length ds"
  by (cases as; cases ds) (auto split: if_splits)

text \<open>
  The \<^verbatim>\<open>for (;;)\<close> loop. The arguments are the additions and deletions not yet
  consumed, \<^verbatim>\<open>editOffset\<close>, \<^verbatim>\<open>current\<close> and \<^verbatim>\<open>chunks\<close>. Every pass consumes
  one range, which is why the loop ends.
\<close>

function getChunks_loop ::
  "DiffRangePos list \<Rightarrow> DiffRangePos list \<Rightarrow> int \<Rightarrow> Chunk option \<Rightarrow> Chunk list \<Rightarrow> Chunk list" where
  "getChunks_loop as ds editOffset current chunks =
     (case chooseNext as ds editOffset of
        None \<Rightarrow> (case current of None \<Rightarrow> chunks | Some c \<Rightarrow> chunks @ [c])
      | Some (isAdd, r, as', ds') \<Rightarrow>
          (case consume isAdd r editOffset current chunks of
             (editOffset', current', chunks') \<Rightarrow>
               getChunks_loop as' ds' editOffset' current' chunks'))"
  by pat_completeness auto
termination
  by (relation "measure (\<lambda>(as, ds, editOffset, current, chunks). length as + length ds)")
     (auto dest: chooseNext_shorter)

declare getChunks_loop.simps [simp del]


section \<open>String diff models\<close>

subsection \<open>Raw ranges and their translation\<close>

text \<open>
  What the code throws: the message of \<^verbatim>\<open>createDirectDiffModel\<close>
  (\<open>InvalidArguments\<close>), the message of \<^verbatim>\<open>innerMimeType\<close> with its key
  (\<open>UnknownMimeType\<close>), the \<^verbatim>\<open>TypeError\<close> of a member access on \<^verbatim>\<open>null\<close> or
  \<^verbatim>\<open>undefined\<close>, the failure of the range translation on a malformed range, and
  whatever a patch primitive throws.
\<close>

datatype error =
    InvalidArguments
  | UnknownMimeType string
  | TypeError
  | MalformedRange
  | ExternalFailure string

text \<open>
  \<^verbatim>\<open>DiffRangeRaw\<close> (diffutil.ts): a half-open span of character offsets, built in
  diffmodel.ts as \<^verbatim>\<open>new DiffRangeRaw(0, s.length)\<close>. A string is a list of characters,
  one for each unit that \<^verbatim>\<open>length\<close> counts; the line terminator is the newline
  character.
\<close>

record DiffRangeRaw =
  raw_from :: nat
  raw_to :: nat

definition newline :: char where
  "newline = CHR 0x0A"

text \<open>
  Modelled from the spec: \<^verbatim>\<open>raw2Pos\<close> is imported from diffutil.ts, which is not part
  of the sources. Section 4.1 of the specification gives its contract: for each raw
  range, locate line and column of \<^verbatim>\<open>from\<close> and \<^verbatim>\<open>to\<close> by scanning line
  boundaries; \<^verbatim>\<open>endsOnNewline\<close> holds iff the character immediately preceding \<^verbatim>\<open>to\<close>
  is a line terminator; \<^verbatim>\<open>chunkStartLine\<close> holds iff the column of \<^verbatim>\<open>from\<close> is 0; the
  translation fails only if \<^verbatim>\<open>from > to\<close> or an offset exceeds the length of the string.
\<close>

definition posAt :: "string \<Rightarrow> nat \<Rightarrow> Pos" where
  "posAt txt off =
     (let pre = take off txt in
      \<lparr>line = int (count_list pre newline),
       ch = int (length (takeWhile (\<lambda>c. c \<noteq> newline) (rev pre)))\<rparr>)"

definition raw2Pos1 :: "string \<Rightarrow> DiffRangeRaw \<Rightarrow> DiffRangePos" where
  "raw2Pos1 txt r =
     \<lparr>from_pos = posAt txt (raw_from r),
      to_pos = posAt txt (raw_to r),
      chunkStartLine = (ch (posAt txt (raw_from r)) = 0),
      endsOnNewline = (0 < raw_to r \<and> txt ! (raw_to r - 1) = newline)\<rparr>"

definition malformed :: "string \<Rightarrow> DiffRangeRaw \<Rightarrow> bool" where
  "malformed txt r \<longleftrightarrow> raw_from r > raw_to r \<or> raw_to r > length txt"

definition raw2Pos :: "DiffRangeRaw list \<Rightarrow> string \<Rightarrow> error + DiffRangePos list" where
  "raw2Pos raws txt =
     (if list_ex (malformed txt) raws then Inl MalformedRange
      else Inr (map (raw2Pos1 txt) raws))"

subsection \<open>The class \<^verbatim>\<open>StringDiffModel\<close>\<close>

text \<open>
  \<^verbatim>\<open>base\<close> and \<^verbatim>\<open>remote\<close> are strings or \<^verbatim>\<open>null\<close> (\<open>None\<close>). The fields that the
  constructor may leave unassigned (\<^verbatim>\<open>undefined\<close>) are options as well.
\<close>

record StringDiffModel =
  base :: "string option"
  remote :: "string option"
  additions :: "DiffRangePos list"
  deletions :: "DiffRangePos list"
  collapsible :: bool
  collapsibleHeader :: "string option"
  startCollapsed :: "bool option"
  mimetype :: "string option"

text \<open>
  The constructor. The optional parameters \<^verbatim>\<open>collapsible\<close>, \<^verbatim>\<open>header\<close> and
  \<^verbatim>\<open>collapsed\<close> are \<open>None\<close> when the caller leaves them out. \<^verbatim>\<open>console.assert\<close>
  only logs, so it is no branch of the model.
\<close>

definition headerOrEmpty :: "string option \<Rightarrow> string" where
  "headerOrEmpty header = (case header of None \<Rightarrow> [] | Some h \<Rightarrow> h)"

definition StringDiffModel_new ::
  "string option \<Rightarrow> string option \<Rightarrow> DiffRangeRaw list \<Rightarrow> DiffRangeRaw list
     \<Rightarrow> bool option \<Rightarrow> string option \<Rightarrow> bool option \<Rightarrow> error + StringDiffModel" where
  "StringDiffModel_new b r adds dels collapsibleArg header collapsed =
     (case (case b of None \<Rightarrow> Inr [] | Some bs \<Rightarrow> raw2Pos dels bs) of
        Inl e \<Rightarrow> Inl e
      | Inr ds \<Rightarrow>
          (case (case r of None \<Rightarrow> Inr [] | Some rs \<Rightarrow> raw2Pos adds rs) of
             Inl e \<Rightarrow> Inl e
           | Inr as \<Rightarrow>
               Inr \<lparr>base = b, remote = r, additions = as, deletions = ds,
                    collapsible = (collapsibleArg = Some True),
                    collapsibleHeader =
                      (if collapsibleArg = Some True then Some (headerOrEmpty header) else None),
                    startCollapsed = (if collapsibleArg = Some True then collapsed else None),
                    mimetype = None\<rparr>))"

definition getChunks :: "StringDiffModel \<Rightarrow> Chunk list" where
  "getChunks m = getChunks_loop (additions m) (deletions m) 0 None []"

definition unchanged :: "StringDiffModel \<Rightarrow> bool" where
  "unchanged m \<longleftrightarrow> base m = remote m"

definition added :: "StringDiffModel \<Rightarrow> bool" where
  "added m \<longleftrightarrow> base m = None"

definition deleted :: "StringDiffModel \<Rightarrow> bool" where
  "deleted m \<longleftrightarrow> remote m = None"

subsection \<open>Values, diff entries and the external primitives\<close>

text \<open>
  The factories take values of type \<^verbatim>\<open>any\<close>: JSON data, \<^verbatim>\<open>null\<close> or
  \<^verbatim>\<open>undefined\<close>. Objects keep their keys in order.
\<close>

datatype jsval =
    JUndefined
  | JNull
  | JBool bool
  | JNum int
  | JStr string
  | JArr "jsval list"
  | JObj "(string \<times> jsval) list"

text \<open>JavaScript truthiness, as \<^verbatim>\<open>!obj\<close> and \<^verbatim>\<open>!remote\<close> test it.\<close>

fun truthy :: "jsval \<Rightarrow> bool" where
  "truthy JUndefined = False"
| "truthy JNull = False"
| "truthy (JBool b) = b"
| "truthy (JNum n) = (n \<noteq> 0)"
| "truthy (JStr s) = (s \<noteq> [])"
| "truthy (JArr xs) = True"
| "truthy (JObj kvs) = True"

text \<open>
  Modelled from the spec: the diff entries (\<^verbatim>\<open>IDiffEntry\<close> and its variants are
  declared in diffutil.ts, which is not part of the sources). Sections 4.4 and 6 name
  the variants: add, remove and replace at a key, add-range and remove-range at an
  index, and patch, which carries the diff of the member at its key.
\<close>

datatype DiffKey = KeyName string | KeyIndex nat

datatype DiffEntry =
    DiffAdd DiffKey jsval
  | DiffRemove DiffKey
  | DiffReplace DiffKey jsval
  | DiffAddRange DiffKey jsval
  | DiffRemoveRange DiffKey nat
  | DiffPatch DiffKey "DiffEntry list"

text \<open>What \<^verbatim>\<open>patchStringified\<close> returns: the fields \<^verbatim>\<open>remote\<close>, \<^verbatim>\<open>additions\<close>
  and \<^verbatim>\<open>deletions\<close> that \<^verbatim>\<open>createPatchDiffModel\<close> reads.\<close>

record PatchResult =
  out_remote :: string
  out_additions :: "DiffRangeRaw list"
  out_deletions :: "DiffRangeRaw list"

text \<open>
  The primitives imported from patch.ts and diffutil.ts, which are not part of the
  sources: \<^verbatim>\<open>stringify\<close>, \<^verbatim>\<open>patch\<close>, \<^verbatim>\<open>patchStringified\<close> and \<^verbatim>\<open>getDiffKey\<close>. The
  functions below take them as a parameter, so that what is proved holds for every
  implementation with these signatures (section 6 of the specification). The patch
  primitives may fail; \<^verbatim>\<open>getDiffKey\<close> returns \<open>None\<close> for \<^verbatim>\<open>null\<close>.
\<close>

record externals =
  ext_stringify :: "jsval \<Rightarrow> string"
  ext_patch :: "jsval \<Rightarrow> DiffEntry list \<Rightarrow> error + jsval"
  ext_patchStringified :: "jsval \<Rightarrow> DiffEntry list \<Rightarrow> error + PatchResult"
  ext_getDiffKey :: "DiffEntry list \<Rightarrow> string \<Rightarrow> DiffEntry list option"

subsection \<open>The factories\<close>

text \<open>\<^verbatim>\<open>(typeof v == 'string') ? v : stringify(v)\<close>\<close>

definition asString :: "externals \<Rightarrow> jsval \<Rightarrow> string" where
  "asString E v = (case v of JStr s \<Rightarrow> s | _ \<Rightarrow> ext_stringify E v)"

definition createPatchDiffModel ::
  "externals \<Rightarrow> jsval \<Rightarrow> DiffEntry list \<Rightarrow> error + StringDiffModel" where
  "createPatchDiffModel E b d =
     (let base_str = asString E b in
      case ext_patchStringified E b d of
        Inl e \<Rightarrow> Inl e
      | Inr out \<Rightarrow>
          StringDiffModel_new (Some base_str) (Some (out_remote out))
            (out_additions out) (out_deletions out) None None None)"

definition createDirectDiffModel ::
  "externals \<Rightarrow> jsval \<Rightarrow> jsval \<Rightarrow> error + StringDiffModel" where
  "createDirectDiffModel E b r =
     (let base_str = asString E b; remote_str = asString E r in
      if b = JNull then
        StringDiffModel_new None (Some remote_str)
          [\<lparr>raw_from = 0, raw_to = length remote_str\<rparr>] [] None None None
      else if r = JNull then
        StringDiffModel_new (Some base_str) None
          [] [\<lparr>raw_from = 0, raw_to = length base_str\<rparr>] None None None
      else if remote_str \<noteq> base_str then Inl InvalidArguments
      else StringDiffModel_new (Some base_str) (Some remote_str) [] [] None None None)"


section \<open>Output diff models\<close>

text \<open>
  The class \<^verbatim>\<open>OutputDiffModel\<close>. \<^verbatim>\<open>base\<close> and \<^verbatim>\<open>remote\<close> are outputs
  (\<^verbatim>\<open>nbformat.IOutput\<close>: JSON objects) or \<^verbatim>\<open>null\<close>; \<^verbatim>\<open>diff\<close> is a list of
  diff entries or \<^verbatim>\<open>null\<close> (\<open>None\<close>). The field names carry the prefix \<open>o_\<close>
  since \<open>base\<close> and \<open>remote\<close> are fields of the string model.
\<close>

record OutputDiffModel =
  o_base :: jsval
  o_remote :: jsval
  o_diff :: "DiffEntry list option"
  o_collapsible :: bool
  o_collapsibleHeader :: "string option"
  o_startCollapsed :: "bool option"

text \<open>
  The constructor. An omitted or \<^verbatim>\<open>null\<close> \<^verbatim>\<open>diff\<close> argument is \<open>None\<close>; an array,
  also the empty one, is truthy. \<^verbatim>\<open>patch\<close> is called only when \<^verbatim>\<open>remote\<close> is falsy
  and a diff is given, and its failure is the constructor's.
\<close>

definition OutputDiffModel_new ::
  "externals \<Rightarrow> jsval \<Rightarrow> jsval \<Rightarrow> DiffEntry list option
     \<Rightarrow> bool option \<Rightarrow> string option \<Rightarrow> bool option \<Rightarrow> error + OutputDiffModel" where
  "OutputDiffModel_new E b r d collapsibleArg header collapsed =
     (case (case d of
              Some entries \<Rightarrow> if \<not> truthy r then ext_patch E b entries else Inr r
            | None \<Rightarrow> Inr r) of
        Inl e \<Rightarrow> Inl e
      | Inr r' \<Rightarrow>
          Inr \<lparr>o_base = b, o_remote = r', o_diff = d,
               o_collapsible = (collapsibleArg = Some True),
               o_collapsibleHeader =
                 (if collapsibleArg = Some True then Some (headerOrEmpty header) else None),
               o_startCollapsed = (if collapsibleArg = Some True then collapsed else None)\<rparr>)"

definition o_unchanged :: "OutputDiffModel \<Rightarrow> bool" where
  "o_unchanged m \<longleftrightarrow> o_diff m = None"

definition o_added :: "OutputDiffModel \<Rightarrow> bool" where
  "o_added m \<longleftrightarrow> o_base m = JNull"

definition o_deleted :: "OutputDiffModel \<Rightarrow> bool" where
  "o_deleted m \<longleftrightarrow> o_remote m = JNull"

text \<open>
  Member access \<^verbatim>\<open>obj[key]\<close> on a truthy value: the member of an object, and
  \<^verbatim>\<open>undefined\<close> where there is none. Outputs are JSON data addressed by object keys;
  inherited members and the built-in members of strings and arrays (\<^verbatim>\<open>length\<close>,
  indices) are left out.
\<close>

fun member :: "jsval \<Rightarrow> string \<Rightarrow> jsval" where
  "member (JObj kvs) k = (case map_of kvs k of Some v \<Rightarrow> v | None \<Rightarrow> JUndefined)"
| "member v k = JUndefined"

text \<open>
  Reading \<^verbatim>\<open>x.output_type\<close>, which throws a \<^verbatim>\<open>TypeError\<close> when \<^verbatim>\<open>x\<close> is
  \<^verbatim>\<open>null\<close> or \<^verbatim>\<open>undefined\<close>.
\<close>

definition output_type :: "OutputDiffModel \<Rightarrow> error + jsval" where
  "output_type m =
     (if truthy (o_base m) then Inr (member (o_base m) ''output_type'')
      else if o_remote m = JNull \<or> o_remote m = JUndefined then Inl TypeError
      else Inr (member (o_remote m) ''output_type''))"

definition innerMimeType :: "OutputDiffModel \<Rightarrow> string \<Rightarrow> error + string" where
  "innerMimeType m key =
     (case output_type m of
        Inl e \<Rightarrow> Inl e
      | Inr t \<Rightarrow>
          if t = JStr ''stream'' \<and> key = ''text'' then Inr ''text/plain''
          else if (t = JStr ''execute_result'' \<or> t = JStr ''display_data'') \<and>
                  take 5 key = ''data.''
          then Inr (drop 5 key)
          else Inl (UnknownMimeType key))"

text \<open>
  The local function \<^verbatim>\<open>getMemberByPath\<close> of \<^verbatim>\<open>stringify\<close>. It is called without
  \<^verbatim>\<open>f\<close> on the outputs and with \<^verbatim>\<open>f = getDiffKey\<close> on the diff, so it is two
  functions here, one for each type of \<^verbatim>\<open>obj\<close>. \<^verbatim>\<open>key.indexOf('.')\<close> splits the
  key at its first dot.
\<close>

definition beforeDot :: "string \<Rightarrow> string" where
  "beforeDot key = takeWhile (\<lambda>c. c \<noteq> CHR ''.'') key"

definition afterDot :: "string \<Rightarrow> string" where
  "afterDot key = tl (dropWhile (\<lambda>c. c \<noteq> CHR ''.'') key)"

lemma afterDot_shorter: "CHR ''.'' \<in> set key \<Longrightarrow> length (afterDot key) < length key"
proof -
  assume "CHR ''.'' \<in> set key"
  then have "dropWhile (\<lambda>c. c \<noteq> CHR ''.'') key \<noteq> []" by simp
  moreover have "length (dropWhile (\<lambda>c. c \<noteq> CHR ''.'') key) \<le> length key"
    by (rule length_dropWhile_le)
  ultimately show ?thesis unfolding afterDot_def
    by (cases "dropWhile (\<lambda>c. c \<noteq> CHR ''.'') key") auto
qed

function getMemberByPath :: "jsval \<Rightarrow> string \<Rightarrow> jsval" where
  "getMemberByPath obj key =
     (if \<not> truthy obj then obj
      else if CHR ''.'' \<in> set key
        then getMemberByPath (member obj (beforeDot key)) (afterDot key)
      else member obj key)"
  by pat_completeness auto
termination
  by (relation "measure (\<lambda>(obj, key). length key)") (auto dest: afterDot_shorter)

declare getMemberByPath.simps [simp del]

function getMemberByPath_f ::
  "(DiffEntry list \<Rightarrow> string \<Rightarrow> DiffEntry list option)
     \<Rightarrow> DiffEntry list option \<Rightarrow> string \<Rightarrow> DiffEntry list option" where
  "getMemberByPath_f f obj key =
     (case obj of
        None \<Rightarrow> None
      | Some d \<Rightarrow>
          if CHR ''.'' \<in> set key
          then getMemberByPath_f f (f d (beforeDot key)) (afterDot key)
          else f d key)"
  by pat_completeness auto
termination
  by (relation "measure (\<lambda>(f, obj, key). length key)") (auto dest: afterDot_shorter)

declare getMemberByPath_f.simps [simp del]

text \<open>
  \<^verbatim>\<open>stringify(key?)\<close>. The key is \<open>None\<close> when omitted; \<^verbatim>\<open>key ? ... : ...\<close> also
  takes the empty string for no key.
\<close>

definition keyGiven :: "string option \<Rightarrow> bool" where
  "keyGiven key \<longleftrightarrow> (case key of None \<Rightarrow> False | Some k \<Rightarrow> k \<noteq> [])"

text \<open>
  The four assignments that end \<^verbatim>\<open>stringify\<close>: the mimetype and the three collapse
  hints of the output model are written into the string model.
\<close>

definition withHints :: "OutputDiffModel \<Rightarrow> string \<Rightarrow> StringDiffModel \<Rightarrow> StringDiffModel" where
  "withHints m mt model =
     model\<lparr>mimetype := Some mt, collapsible := o_collapsible m,
           collapsibleHeader := o_collapsibleHeader m,
           startCollapsed := o_startCollapsed m\<rparr>"

definition stringify :: "externals \<Rightarrow> OutputDiffModel \<Rightarrow> string option \<Rightarrow> error + StringDiffModel" where
  "stringify E m key =
     (let b = (if keyGiven key then getMemberByPath (o_base m) (the key) else o_base m);
          r = (if keyGiven key then getMemberByPath (o_remote m) (the key) else o_remote m);
          d = (if o_diff m \<noteq> None \<and> keyGiven key
               then getMemberByPath_f (ext_getDiffKey E) (o_diff m) (the key)
               else o_diff m)
      in
      case (if o_unchanged m \<or> o_added m \<or> o_deleted m \<or> d = None
            then createDirectDiffModel E b r
            else createPatchDiffModel E b (the d)) of
        Inl e \<Rightarrow> Inl e
      | Inr model \<Rightarrow>
          (case (if keyGiven key then innerMimeType m (the key) else Inr ''application/json'') of
             Inl e \<Rightarrow> Inl e
           | Inr mt \<Rightarrow> Inr (withHints m mt model)))"


section \<open>An instance of the external primitives\<close>

text \<open>
  The theorems below hold for every value of the parameter \<open>E\<close>. To run the functions
  at concrete inputs, this section gives one instance of the four primitives: a compact
  JSON printer, a key lookup in a diff, and the patch of an object by entries at its
  keys and of a string by add-range and remove-range entries.
\<close>

function decimal :: "nat \<Rightarrow> string" where
  "decimal n =
     (if n < 10 then [''0123456789'' ! n]
      else decimal (n div 10) @ [''0123456789'' ! (n mod 10)])"
  by pat_completeness auto
termination
  by (relation "measure (\<lambda>n. n)") auto

declare decimal.simps [simp del]

definition quoted :: "string \<Rightarrow> string" where
  "quoted s =
     [CHR 0x22] @
     concat (map (\<lambda>c. if c = CHR 0x22 \<or> c = CHR 0x5C then [CHR 0x5C, c]
                        else if c = newline then [CHR 0x5C, CHR ''n''] else [c]) s) @
     [CHR 0x22]"

fun commas :: "string list \<Rightarrow> string" where
  "commas [] = []"
| "commas [x] = x"
| "commas (x # y # ys) = x @ '','' @ commas (y # ys)"

primrec json_stringify :: "jsval \<Rightarrow> string" where
  "json_stringify JUndefined = ''undefined''"
| "json_stringify JNull = ''null''"
| "json_stringify (JBool b) = (if b then ''true'' else ''false'')"
| "json_stringify (JNum n) = (if n < 0 then ''-'' @ decimal (nat (- n)) else decimal (nat n))"
| "json_stringify (JStr s) = quoted s"
| "json_stringify (JArr xs) = ''['' @ commas (map json_stringify xs) @ '']''"
| "json_stringify (JObj kvs) =
     ''{'' @ commas (map (\<lambda>(k, v). quoted k @ '':'' @ v) (map (map_prod id json_stringify) kvs))
       @ ''}''"

text \<open>
  Modelled from the spec: \<^verbatim>\<open>getDiffKey\<close> is imported from diffutil.ts, which is not
  part of the sources. Sections 4.4, 6 and 9 describe it as the lookup of an entry by
  its key, with an explicit ``not found'' result; the diff at a key is the one a patch
  entry carries.
\<close>

fun entryKey :: "DiffEntry \<Rightarrow> DiffKey" where
  "entryKey (DiffAdd k v) = k"
| "entryKey (DiffRemove k) = k"
| "entryKey (DiffReplace k v) = k"
| "entryKey (DiffAddRange k vs) = k"
| "entryKey (DiffRemoveRange k n) = k"
| "entryKey (DiffPatch k d) = k"

fun getDiffKey :: "DiffEntry list \<Rightarrow> string \<Rightarrow> DiffEntry list option" where
  "getDiffKey [] key = None"
| "getDiffKey (e # es) key =
     (if entryKey e = KeyName key
      then (case e of DiffPatch k d \<Rightarrow> Some d | _ \<Rightarrow> None)
      else getDiffKey es key)"

fun patchObject :: "(string \<times> jsval) list \<Rightarrow> DiffEntry list \<Rightarrow> error + (string \<times> jsval) list" where
  "patchObject kvs [] = Inr kvs"
| "patchObject kvs (DiffAdd (KeyName k) v # es) = patchObject (kvs @ [(k, v)]) es"
| "patchObject kvs (DiffRemove (KeyName k) # es) =
     patchObject (filter (\<lambda>kv. fst kv \<noteq> k) kvs) es"
| "patchObject kvs (DiffReplace (KeyName k) v # es) =
     patchObject (map (\<lambda>kv. if fst kv = k then (k, v) else kv) kvs) es"
| "patchObject kvs (e # es) = Inl (ExternalFailure ''entry not handled'')"

definition example_patch :: "jsval \<Rightarrow> DiffEntry list \<Rightarrow> error + jsval" where
  "example_patch b d =
     (case b of
        JObj kvs \<Rightarrow> (case patchObject kvs d of Inl e \<Rightarrow> Inl e | Inr kvs' \<Rightarrow> Inr (JObj kvs'))
      | _ \<Rightarrow> Inl (ExternalFailure ''not an object''))"

fun patchString :: "string \<Rightarrow> nat \<Rightarrow> DiffEntry list \<Rightarrow> PatchResult \<Rightarrow> error + PatchResult" where
  "patchString b cur [] acc = Inr (acc\<lparr>out_remote := out_remote acc @ drop cur b\<rparr>)"
| "patchString b cur (DiffAddRange (KeyIndex k) (JStr v) # es) acc =
     (if k < cur \<or> length b < k then Inl (ExternalFailure ''index out of range'')
      else
        (let kept = out_remote acc @ take (k - cur) (drop cur b) in
         patchString b k es
           (acc\<lparr>out_remote := kept @ v,
                out_additions := out_additions acc @
                  [\<lparr>raw_from = length kept, raw_to = length kept + length v\<rparr>]\<rparr>)))"
| "patchString b cur (DiffRemoveRange (KeyIndex k) n # es) acc =
     (if k < cur \<or> length b < k + n then Inl (ExternalFailure ''index out of range'')
      else
        patchString b (k + n) es
          (acc\<lparr>out_remote := out_remote acc @ take (k - cur) (drop cur b),
               out_deletions := out_deletions acc @ [\<lparr>raw_from = k, raw_to = k + n\<rparr>]\<rparr>))"
| "patchString b cur (e # es) acc = Inl (ExternalFailure ''entry not handled'')"

definition example_patchStringified :: "jsval \<Rightarrow> DiffEntry list \<Rightarrow> error + PatchResult" where
  "example_patchStringified b d =
     (case b of
        JStr s \<Rightarrow> patchString s 0 d \<lparr>out_remote = [], out_additions = [], out_deletions = []\<rparr>
      | _ \<Rightarrow> Inl (ExternalFailure ''not a string''))"

definition example_externals :: externals where
  "example_externals =
     \<lparr>ext_stringify = json_stringify,
      ext_patch = example_patch,
      ext_patchStringified = example_patchStringified,
      ext_getDiffKey = getDiffKey\<rparr>"


section \<open>Predicates on ranges and chunks\<close>

text \<open>
  What the specification says of the lists a model holds and of the chunks it returns.
  Positions are ordered by line, then column; a list of ranges is sorted and
  non-overlapping when every range ends at or before the start of each later one.
\<close>

definition posLe :: "Pos \<Rightarrow> Pos \<Rightarrow> bool" where
  "posLe p q \<longleftrightarrow> line p < line q \<or> (line p = line q \<and> ch p \<le> ch q)"

definition sortedRanges :: "DiffRangePos list \<Rightarrow> bool" where
  "sortedRanges rs \<longleftrightarrow>
     list_all (\<lambda>r. posLe (from_pos r) (to_pos r)) rs \<and>
     sorted_wrt (\<lambda>r r'. posLe (to_pos r) (from_pos r')) rs"

text \<open>
  Two chunks overlap when some line is in the edit span of both (\<^verbatim>\<open>inEdit\<close>), or in
  the orig span of both (\<^verbatim>\<open>inOrig\<close>); the spans are inclusive, so this is the case
  exactly when the later start is not after the earlier end.
\<close>

definition sharesEditLine :: "Chunk \<Rightarrow> Chunk \<Rightarrow> bool" where
  "sharesEditLine c c' \<longleftrightarrow> max (editFrom c) (editFrom c') \<le> min (editTo c) (editTo c')"

definition sharesOrigLine :: "Chunk \<Rightarrow> Chunk \<Rightarrow> bool" where
  "sharesOrigLine c c' \<longleftrightarrow> max (origFrom c) (origFrom c') \<le> min (origTo c) (origTo c')"

text \<open>
  A list of chunks is pairwise non-overlapping, and ascending on both sides. A range
  lies in a span of a chunk when its first and its last line do.
\<close>

definition chunksDisjoint :: "Chunk list \<Rightarrow> bool" where
  "chunksDisjoint cs \<longleftrightarrow>
     sorted_wrt (\<lambda>c c'. \<not> sharesEditLine c c' \<and> \<not> sharesOrigLine c c') cs"

definition chunksAscending :: "Chunk list \<Rightarrow> bool" where
  "chunksAscending cs \<longleftrightarrow>
     sorted_wrt (\<lambda>c c'. editFrom c < editFrom c' \<and> editTo c < editTo c' \<and>
                        origFrom c < origFrom c' \<and> origTo c < origTo c') cs"

definition rangeInOrig :: "Chunk \<Rightarrow> DiffRangePos \<Rightarrow> bool" where
  "rangeInOrig c r \<longleftrightarrow> inOrig c (line (from_pos r)) \<and> inOrig c (line (to_pos r))"

definition rangeInEdit :: "Chunk \<Rightarrow> DiffRangePos \<Rightarrow> bool" where
  "rangeInEdit c r \<longleftrightarrow> inEdit c (line (from_pos r)) \<and> inEdit c (line (to_pos r))"

text \<open>
  A whole-line range starts at column 0 with both flags set (it starts a chunk line and
  ends on a newline) and does not end before its first line. The ranges of a list are
  separated when each starts on a later line than the line every earlier one ends on.
\<close>

definition wholeLine :: "DiffRangePos \<Rightarrow> bool" where
  "wholeLine r \<longleftrightarrow>
     ch (from_pos r) = 0 \<and> chunkStartLine r \<and> endsOnNewline r \<and>
     line (from_pos r) \<le> line (to_pos r)"

definition separated :: "DiffRangePos list \<Rightarrow> bool" where
  "separated rs \<longleftrightarrow> sorted_wrt (\<lambda>r r'. line (to_pos r) < line (from_pos r')) rs"

text \<open>
  The invariant of the loop on whole-line ranges. One chunk lies before another when
  both its spans end before the other's begin. With a chunk open, the chunks pushed so
  far and the open one are in this order, \<^verbatim>\<open>editOffset\<close> is the difference of the
  ends of its two spans, and no remaining range starts before the end of the span it
  would extend.
\<close>

definition chunkBefore :: "Chunk \<Rightarrow> Chunk \<Rightarrow> bool" where
  "chunkBefore c c' \<longleftrightarrow> editTo c < editFrom c' \<and> origTo c < origFrom c'"

definition chunkSpans :: "Chunk \<Rightarrow> bool" where
  "chunkSpans c \<longleftrightarrow> editFrom c \<le> editTo c \<and> origFrom c \<le> origTo c"

definition chunksOrdered :: "Chunk list \<Rightarrow> bool" where
  "chunksOrdered cs \<longleftrightarrow> sorted_wrt chunkBefore cs \<and> list_all chunkSpans cs"

definition chunkExtends :: "Chunk \<Rightarrow> Chunk \<Rightarrow> bool" where
  "chunkExtends c c' \<longleftrightarrow>
     editFrom c' = editFrom c \<and> origFrom c' = origFrom c \<and>
     editTo c \<le> editTo c' \<and> origTo c \<le> origTo c'"

definition loopInv ::
  "DiffRangePos list \<Rightarrow> DiffRangePos list \<Rightarrow> int \<Rightarrow> Chunk option \<Rightarrow> Chunk list \<Rightarrow> bool" where
  "loopInv as ds editOffset current chunks \<longleftrightarrow>
     list_all wholeLine as \<and> list_all wholeLine ds \<and> separated as \<and> separated ds \<and>
     (case current of
        None \<Rightarrow> chunks = []
      | Some c \<Rightarrow>
          chunksOrdered (chunks @ [c]) \<and> origTo c + editOffset = editTo c \<and>
          (\<forall>a \<in> set as. origTo c \<le> line (from_pos a)) \<and>
          (\<forall>d \<in> set ds. editTo c \<le> line (from_pos d)))"

text \<open>
  What the loop returns from a state: the chunks pushed so far, followed by chunks of
  which the first extends the open one and which hold every remaining range.
\<close>

definition loopResult ::
  "DiffRangePos list \<Rightarrow> DiffRangePos list \<Rightarrow> Chunk option \<Rightarrow> Chunk list \<Rightarrow> Chunk list \<Rightarrow> bool" where
  "loopResult as ds current chunks result \<longleftrightarrow>
     (\<exists>rest. result = chunks @ rest \<and> chunksOrdered result \<and>
        (\<forall>c. current = Some c \<longrightarrow> rest \<noteq> [] \<and> chunkExtends c (hd rest)) \<and>
        (\<forall>a \<in> set as. \<exists>c \<in> set rest. rangeInOrig c a) \<and>
        (\<forall>d \<in> set ds. \<exists>c \<in> set rest. rangeInEdit c d))"


section \<open>Example inputs\<close>

text \<open>The string \<^verbatim>\<open>"hello\nworld"\<close> and the model of its addition.\<close>

definition hello_world :: string where
  "hello_world = ''hello'' @ [newline] @ ''world''"

definition hello_world_model :: StringDiffModel where
  "hello_world_model =
     \<lparr>base = None, remote = Some hello_world,
      additions = [DiffRangePos_new (CodeMirror_Pos 0 0) (CodeMirror_Pos 1 5) True False],
      deletions = [], collapsible = False, collapsibleHeader = None,
      startCollapsed = None, mimetype = None\<rparr>"

text \<open>
  A model of base \<^verbatim>\<open>"aa"\<close> and remote \<^verbatim>\<open>"aa"\<close> whose ranges delete the first
  character of the base and add the last character of the remote.
\<close>

definition moved_char_model :: StringDiffModel where
  "moved_char_model =
     \<lparr>base = Some ''aa'', remote = Some ''aa'',
      additions = [DiffRangePos_new (CodeMirror_Pos 0 1) (CodeMirror_Pos 0 2) False False],
      deletions = [DiffRangePos_new (CodeMirror_Pos 0 0) (CodeMirror_Pos 0 1) True False],
      collapsible = False, collapsibleHeader = None, startCollapsed = None,
      mimetype = None\<rparr>"

text \<open>The model that \<^verbatim>\<open>createDirectDiffModel(null, null)\<close> builds with the JSON printer.\<close>

definition null_null_model :: StringDiffModel where
  "null_null_model =
     \<lparr>base = None, remote = Some ''null'',
      additions = [DiffRangePos_new (CodeMirror_Pos 0 0) (CodeMirror_Pos 0 4) True False],
      deletions = [], collapsible = False, collapsibleHeader = None,
      startCollapsed = None, mimetype = None\<rparr>"

text \<open>The unchanged model of the string \<^verbatim>\<open>"a"\<close>.\<close>

definition same_a_model :: StringDiffModel where
  "same_a_model =
     \<lparr>base = Some ''a'', remote = Some ''a'', additions = [], deletions = [],
      collapsible = False, collapsibleHeader = None, startCollapsed = None,
      mimetype = None\<rparr>"


text \<open>
  Base \<^verbatim>\<open>"c\ny\n"\<close> and remote \<^verbatim>\<open>"c\nx\n"\<close>, with the raw ranges \<^verbatim>\<open>{1, 3}\<close> on
  each side: the addition of \<^verbatim>\<open>"\nx"\<close> and the deletion of \<^verbatim>\<open>"\ny"\<close>.
\<close>

definition replaced_line_base :: string where
  "replaced_line_base = ''c'' @ [newline] @ ''y'' @ [newline]"

definition replaced_line_remote :: string where
  "replaced_line_remote = ''c'' @ [newline] @ ''x'' @ [newline]"

definition replaced_line_model :: StringDiffModel where
  "replaced_line_model =
     \<lparr>base = Some replaced_line_base, remote = Some replaced_line_remote,
      additions = [DiffRangePos_new (CodeMirror_Pos 0 1) (CodeMirror_Pos 1 1) False False],
      deletions = [DiffRangePos_new (CodeMirror_Pos 0 1) (CodeMirror_Pos 1 1) False False],
      collapsible = False, collapsibleHeader = None, startCollapsed = None,
      mimetype = None\<rparr>"

text \<open>
  Base \<^verbatim>\<open>"a\nD\nb\nc\nE\n"\<close> and remote \<^verbatim>\<open>"X\na\nb\nY\nc\n"\<close>: two lines added,
  two lines deleted.
\<close>

definition two_edits_base :: string where
  "two_edits_base =
     ''a'' @ [newline] @ ''D'' @ [newline] @ ''b'' @ [newline] @ ''c'' @ [newline] @
     ''E'' @ [newline]"

definition two_edits_remote :: string where
  "two_edits_remote =
     ''X'' @ [newline] @ ''a'' @ [newline] @ ''b'' @ [newline] @ ''Y'' @ [newline] @
     ''c'' @ [newline]"

definition two_edits_model :: StringDiffModel where
  "two_edits_model =
     \<lparr>base = Some two_edits_base, remote = Some two_edits_remote,
      additions = [DiffRangePos_new (CodeMirror_Pos 0 0) (CodeMirror_Pos 1 0) True True,
                   DiffRangePos_new (CodeMirror_Pos 3 0) (CodeMirror_Pos 4 0) True True],
      deletions = [DiffRangePos_new (CodeMirror_Pos 1 0) (CodeMirror_Pos 2 0) True True,
                   DiffRangePos_new (CodeMirror_Pos 4 0) (CodeMirror_Pos 5 0) True True],
      collapsible = False, collapsibleHeader = None, startCollapsed = None,
      mimetype = None\<rparr>"

text \<open>
  A stream output whose text changes from \<^verbatim>\<open>"a"\<close> to \<^verbatim>\<open>"b"\<close> by a replace entry,
  and one whose name changes while its text stays.
\<close>

definition stream_a :: jsval where
  "stream_a = JObj [(''output_type'', JStr ''stream''), (''name'', JStr ''stdout''),
                    (''text'', JStr ''a'')]"

definition stream_b :: jsval where
  "stream_b = JObj [(''output_type'', JStr ''stream''), (''name'', JStr ''stdout''),
                    (''text'', JStr ''b'')]"

definition stream_diff :: "DiffEntry list" where
  "stream_diff = [DiffReplace (KeyName ''text'') (JStr ''b'')]"

definition stream_model :: OutputDiffModel where
  "stream_model =
     \<lparr>o_base = stream_a, o_remote = stream_b, o_diff = Some stream_diff,
      o_collapsible = False, o_collapsibleHeader = None, o_startCollapsed = None\<rparr>"

definition stream_renamed :: jsval where
  "stream_renamed = JObj [(''output_type'', JStr ''stream''), (''name'', JStr ''stderr''),
                          (''text'', JStr ''a'')]"

definition renamed_model :: OutputDiffModel where
  "renamed_model =
     \<lparr>o_base = stream_a, o_remote = stream_renamed,
      o_diff = Some [DiffReplace (KeyName ''name'') (JStr ''stderr'')],
      o_collapsible = False, o_collapsibleHeader = None, o_startCollapsed = None\<rparr>"

text \<open>
  An execute_result output whose \<^verbatim>\<open>data['text/plain']\<close> changes from \<^verbatim>\<open>"1"\<close> to
  \<^verbatim>\<open>"2"\<close>, with the diff that patches the string at that path.
\<close>

definition result_1 :: jsval where
  "result_1 = JObj [(''output_type'', JStr ''execute_result''), (''execution_count'', JNum 1),
                    (''data'', JObj [(''text/plain'', JStr ''1'')]),
                    (''metadata'', JObj [(''tag'', JStr ''x'')])]"

definition result_2 :: jsval where
  "result_2 = JObj [(''output_type'', JStr ''execute_result''), (''execution_count'', JNum 1),
                    (''data'', JObj [(''text/plain'', JStr ''2'')]),
                    (''metadata'', JObj [(''tag'', JStr ''x'')])]"

definition result_diff :: "DiffEntry list" where
  "result_diff =
     [DiffPatch (KeyName ''data'')
        [DiffPatch (KeyName ''text/plain'')
           [DiffAddRange (KeyIndex 0) (JStr ''2''), DiffRemoveRange (KeyIndex 0) 1]]]"

definition result_model :: OutputDiffModel where
  "result_model =
     \<lparr>o_base = result_1, o_remote = result_2, o_diff = Some result_diff,
      o_collapsible = False, o_collapsibleHeader = None, o_startCollapsed = None\<rparr>"

text \<open>The model of the same two outputs constructed without a diff.\<close>

definition result_nodiff_model :: OutputDiffModel where
  "result_nodiff_model =
     \<lparr>o_base = result_1, o_remote = result_2, o_diff = None,
      o_collapsible = False, o_collapsibleHeader = None, o_startCollapsed = None\<rparr>"


section \<open>Properties of the chunk builder\<close>

subsection \<open>Unfolding the loop\<close>

lemma getChunks_loop_done:
  "getChunks_loop [] [] editOffset current chunks =
     (case current of None \<Rightarrow> chunks | Some c \<Rightarrow> chunks @ [c])"
  by (simp add: getChunks_loop.simps)

lemma getChunks_loop_step:
  "chooseNext as ds editOffset = Some (isAdd, r, as', ds') \<Longrightarrow>
   getChunks_loop as ds editOffset current chunks =
     (case consume isAdd r editOffset current chunks of
        (editOffset', current', chunks') \<Rightarrow> getChunks_loop as' ds' editOffset' current' chunks')"
  by (subst getChunks_loop.simps) simp

subsection \<open>Which range is consumed next\<close>

text \<open>
  Claim C2. When both lists have a next range, the addition is consumed next unless the
  deletion starts earlier on the original side (its line minus \<^verbatim>\<open>editOffset\<close> strictly
  before the addition's line, or the same line and an earlier or equal column); at the
  same normalized position the addition is consumed first. So the deletion is consumed
  exactly when it is earlier and the two positions are not the same.
\<close>

theorem addition_consumed_unless_deletion_earlier:
  "(\<not> deletionEarlier ra rd editOffset \<or> sameNormalizedPosition ra rd editOffset \<longrightarrow>
      chooseNext (ra # as) (rd # ds) editOffset = Some (True, ra, as, rd # ds) \<and>
      getChunks_loop (ra # as) (rd # ds) editOffset current chunks =
        (case consume True ra editOffset current chunks of
           (editOffset', current', chunks') \<Rightarrow>
             getChunks_loop as (rd # ds) editOffset' current' chunks')) \<and>
   (chooseNext (ra # as) (rd # ds) editOffset = Some (False, rd, ra # as, ds) \<longleftrightarrow>
      deletionEarlier ra rd editOffset \<and> \<not> sameNormalizedPosition ra rd editOffset)"
proof -
  have choice: "takeAddition ra rd editOffset \<longleftrightarrow>
      \<not> deletionEarlier ra rd editOffset \<or> sameNormalizedPosition ra rd editOffset"
    unfolding takeAddition_def deletionEarlier_def sameNormalizedPosition_def by auto
  show ?thesis
  proof (cases "takeAddition ra rd editOffset")
    case True
    then have "chooseNext (ra # as) (rd # ds) editOffset = Some (True, ra, as, rd # ds)"
      by simp
    with True choice show ?thesis
      by (simp add: getChunks_loop_step)
  next
    case False
    with choice show ?thesis by simp
  qed
qed

theorem addition_consumed_witness:
  "sameNormalizedPosition
     (DiffRangePos_new (CodeMirror_Pos 1 0) (CodeMirror_Pos 1 2) True True)
     (DiffRangePos_new (CodeMirror_Pos 1 0) (CodeMirror_Pos 1 2) True True) 0 \<and>
   chooseNext
     [DiffRangePos_new (CodeMirror_Pos 1 0) (CodeMirror_Pos 1 2) True True]
     [DiffRangePos_new (CodeMirror_Pos 1 0) (CodeMirror_Pos 1 2) True True] 0
   = Some (True, DiffRangePos_new (CodeMirror_Pos 1 0) (CodeMirror_Pos 1 2) True True, [],
           [DiffRangePos_new (CodeMirror_Pos 1 0) (CodeMirror_Pos 1 2) True True]) \<and>
   deletionEarlier
     (DiffRangePos_new (CodeMirror_Pos 3 0) (CodeMirror_Pos 3 2) True True)
     (DiffRangePos_new (CodeMirror_Pos 1 0) (CodeMirror_Pos 1 2) True True) 0 \<and>
   chooseNext
     [DiffRangePos_new (CodeMirror_Pos 3 0) (CodeMirror_Pos 3 2) True True]
     [DiffRangePos_new (CodeMirror_Pos 1 0) (CodeMirror_Pos 1 2) True True] 0
   = Some (False, DiffRangePos_new (CodeMirror_Pos 1 0) (CodeMirror_Pos 1 2) True True,
           [DiffRangePos_new (CodeMirror_Pos 3 0) (CodeMirror_Pos 3 2) True True], [])"
  using addition_consumed_unless_deletion_earlier
          [of "DiffRangePos_new (CodeMirror_Pos 1 0) (CodeMirror_Pos 1 2) True True"
              "DiffRangePos_new (CodeMirror_Pos 1 0) (CodeMirror_Pos 1 2) True True"
              0 "[]" "[]" None "[]"]
        addition_consumed_unless_deletion_earlier
          [of "DiffRangePos_new (CodeMirror_Pos 3 0) (CodeMirror_Pos 3 2) True True"
              "DiffRangePos_new (CodeMirror_Pos 1 0) (CodeMirror_Pos 1 2) True True"
              0 "[]" "[]" None "[]"]
  by (simp add: sameNormalizedPosition_def deletionEarlier_def)


subsection \<open>Order, overlap and coverage of the chunks\<close>

lemma sharesEditLine_iff: "sharesEditLine c c' \<longleftrightarrow> (\<exists>l. inEdit c l \<and> inEdit c' l)"
  unfolding sharesEditLine_def inEdit_def
proof
  assume "max (editFrom c) (editFrom c') \<le> min (editTo c) (editTo c')"
  then have "max (editFrom c) (editFrom c') \<ge> editFrom c \<and>
      max (editFrom c) (editFrom c') \<le> editTo c \<and>
      max (editFrom c) (editFrom c') \<ge> editFrom c' \<and>
      max (editFrom c) (editFrom c') \<le> editTo c'" by auto
  then show "\<exists>l. (editFrom c \<le> l \<and> l \<le> editTo c) \<and> editFrom c' \<le> l \<and> l \<le> editTo c'"
    by blast
next
  assume "\<exists>l. (editFrom c \<le> l \<and> l \<le> editTo c) \<and> editFrom c' \<le> l \<and> l \<le> editTo c'"
  then show "max (editFrom c) (editFrom c') \<le> min (editTo c) (editTo c')" by auto
qed

lemma sharesOrigLine_iff: "sharesOrigLine c c' \<longleftrightarrow> (\<exists>l. inOrig c l \<and> inOrig c' l)"
  unfolding sharesOrigLine_def inOrig_def
proof
  assume "max (origFrom c) (origFrom c') \<le> min (origTo c) (origTo c')"
  then have "max (origFrom c) (origFrom c') \<ge> origFrom c \<and>
      max (origFrom c) (origFrom c') \<le> origTo c \<and>
      max (origFrom c) (origFrom c') \<ge> origFrom c' \<and>
      max (origFrom c) (origFrom c') \<le> origTo c'" by auto
  then show "\<exists>l. (origFrom c \<le> l \<and> l \<le> origTo c) \<and> origFrom c' \<le> l \<and> l \<le> origTo c'"
    by blast
next
  assume "\<exists>l. (origFrom c \<le> l \<and> l \<le> origTo c) \<and> origFrom c' \<le> l \<and> l \<le> origTo c'"
  then show "max (origFrom c) (origFrom c') \<le> min (origTo c) (origTo c')" by auto
qed

lemmas chunk_simps =
  getChunks_def getChunks_loop.simps takeAddition_def consume_def extendOrClose_def
  openChunk_def linediff_def startOffset_def endOffset_def firstLineNew_def inOrig_def
  inEdit_def

text \<open>
  Claim C1, as stated: for sorted, non-overlapping additions and deletions the chunks
  are pairwise non-overlapping and ascending on both sides, and every range lies in
  the corresponding span of exactly one chunk. It fails for base \<^verbatim>\<open>"c\ny\n"\<close> and
  remote \<^verbatim>\<open>"c\nx\n"\<close> with one addition and one deletion, each from line 0, column 1
  to line 1, column 1. \<^verbatim>\<open>getChunks()\<close> returns \<^verbatim>\<open>Chunk(1, 1, 1, 2)\<close> and
  \<^verbatim>\<open>Chunk(1, 2, 2, 2)\<close>: both hold edit line 1 and orig line 2, \<^verbatim>\<open>editFrom\<close> is 1
  in both, and no chunk holds line 0 of either range, on either side.
\<close>

theorem replaced_line_chunks_overlap:
  "StringDiffModel_new (Some replaced_line_base) (Some replaced_line_remote)
       [\<lparr>raw_from = 1, raw_to = 3\<rparr>] [\<lparr>raw_from = 1, raw_to = 3\<rparr>] None None None =
     Inr replaced_line_model \<and>
   sortedRanges (additions replaced_line_model) \<and>
   sortedRanges (deletions replaced_line_model) \<and>
   getChunks replaced_line_model = [Chunk_new 1 1 1 2, Chunk_new 1 2 2 2] \<and>
   inEdit (Chunk_new 1 1 1 2) 1 \<and> inEdit (Chunk_new 1 2 2 2) 1 \<and>
   inOrig (Chunk_new 1 1 1 2) 2 \<and> inOrig (Chunk_new 1 2 2 2) 2 \<and>
   \<not> chunksDisjoint (getChunks replaced_line_model) \<and>
   \<not> chunksAscending (getChunks replaced_line_model) \<and>
   filter (\<lambda>c. rangeInOrig c (DiffRangePos_new (CodeMirror_Pos 0 1) (CodeMirror_Pos 1 1) False False))
     (getChunks replaced_line_model) = [] \<and>
   filter (\<lambda>c. rangeInEdit c (DiffRangePos_new (CodeMirror_Pos 0 1) (CodeMirror_Pos 1 1) False False))
     (getChunks replaced_line_model) = []"
  by (simp add: replaced_line_model_def replaced_line_base_def replaced_line_remote_def
        StringDiffModel_new_def raw2Pos_def malformed_def raw2Pos1_def posAt_def newline_def
        sortedRanges_def posLe_def chunk_simps chunksDisjoint_def chunksAscending_def
        sharesEditLine_def sharesOrigLine_def rangeInOrig_def rangeInEdit_def)


lemma wholeLine_offsets:
  "wholeLine r \<Longrightarrow>
     startOffset r = 0 \<and> endOffset r = 0 \<and>
     linediff r = line (to_pos r) - line (from_pos r) + 1"
  by (simp add: wholeLine_def startOffset_def endOffset_def linediff_def firstLineNew_def)

lemma separated_Cons:
  "separated (r # rs) \<longleftrightarrow> (\<forall>r' \<in> set rs. line (to_pos r) < line (from_pos r')) \<and> separated rs"
  by (simp add: separated_def)

lemma chooseNext_cases:
  assumes "chooseNext as ds editOffset = Some (isAdd, r, as', ds')"
  shows "(isAdd \<and> as = r # as' \<and> ds' = ds \<and>
            (\<forall>rd rest. ds = rd # rest \<longrightarrow> takeAddition r rd editOffset)) \<or>
         (\<not> isAdd \<and> ds = r # ds' \<and> as' = as \<and>
            (\<forall>ra rest. as = ra # rest \<longrightarrow> \<not> takeAddition ra r editOffset))"
  using assms by (cases as; cases ds) (auto split: if_splits)

lemma chunksOrdered_snoc:
  "chunksOrdered (cs @ [c]) \<Longrightarrow> chunkBefore c c' \<Longrightarrow> chunkSpans c' \<Longrightarrow>
   chunksOrdered ((cs @ [c]) @ [c'])"
  unfolding chunksOrdered_def
  by (auto simp: sorted_wrt_append chunkBefore_def chunkSpans_def)

lemma chunksOrdered_replace_last:
  "chunksOrdered (cs @ [c]) \<Longrightarrow> chunkExtends c c' \<Longrightarrow> chunksOrdered (cs @ [c'])"
  unfolding chunksOrdered_def
  by (auto simp: sorted_wrt_append chunkBefore_def chunkSpans_def chunkExtends_def)

lemma later_ranges_from:
  assumes "list_all wholeLine (r # rs)" and "separated (r # rs)"
  shows "\<forall>r' \<in> set rs. line (from_pos r) < line (from_pos r')"
  using assms by (auto simp: separated_Cons wholeLine_def)

lemma openChunk_addition:
  "wholeLine r \<Longrightarrow>
   openChunk True r editOffset =
     Chunk_new (line (from_pos r) + editOffset) (line (from_pos r) + editOffset)
       (line (from_pos r)) (line (to_pos r) + 1)"
  by (simp add: openChunk_def wholeLine_offsets Let_def)

lemma openChunk_deletion:
  "wholeLine r \<Longrightarrow>
   openChunk False r editOffset =
     Chunk_new (line (from_pos r)) (line (to_pos r) + 1)
       (line (from_pos r) - editOffset) (line (from_pos r) - editOffset)"
  by (simp add: openChunk_def wholeLine_offsets Let_def)

lemma step_addition:
  assumes inv: "loopInv (r # as') ds editOffset current chunks"
    and take: "\<forall>rd rest. ds = rd # rest \<longrightarrow> takeAddition r rd editOffset"
    and step: "consume True r editOffset current chunks = (editOffset', current', chunks')"
  shows "\<exists>c'. current' = Some c' \<and> loopInv as' ds editOffset' current' chunks' \<and>
           rangeInOrig c' r \<and>
           ((chunks' = chunks \<and> (\<forall>c. current = Some c \<longrightarrow> chunkExtends c c')) \<or>
            (\<exists>c. current = Some c \<and> chunks' = chunks @ [c]))"
proof -
  from inv have wl: "wholeLine r" and wls: "list_all wholeLine as'" "list_all wholeLine ds"
    and sep: "separated as'" "separated ds"
    and after: "\<forall>a \<in> set as'. line (to_pos r) < line (from_pos a)"
    by (auto simp: loopInv_def separated_Cons)
  from wl have span: "line (from_pos r) \<le> line (to_pos r)" by (simp add: wholeLine_def)
  have ld: "linediff r = line (to_pos r) - line (from_pos r) + 1"
    using wl by (simp add: wholeLine_offsets)
  have dels: "\<forall>d \<in> set ds. line (from_pos r) + editOffset \<le> line (from_pos d)"
  proof (cases ds)
    case Nil
    then show ?thesis by simp
  next
    case (Cons rd rest)
    with take have "takeAddition r rd editOffset" by simp
    then have first: "line (from_pos r) + editOffset \<le> line (from_pos rd)"
      by (auto simp: takeAddition_def)
    from wls(2) sep(2) Cons have "\<forall>d \<in> set rest. line (from_pos rd) < line (from_pos d)"
      using later_ranges_from by blast
    with first Cons show ?thesis by auto
  qed
  let ?new = "Chunk_new (line (from_pos r) + editOffset) (line (from_pos r) + editOffset)
       (line (from_pos r)) (line (to_pos r) + 1)"
  have new_in: "rangeInOrig ?new r"
    using span by (simp add: rangeInOrig_def inOrig_def)
  have new_spans: "chunkSpans ?new"
    using span by (simp add: chunkSpans_def)
  show ?thesis
  proof (cases current)
    case None
    with inv have "chunks = []" by (simp add: loopInv_def)
    with None step wl have res: "editOffset' = editOffset - linediff r" "current' = Some ?new"
        "chunks' = []"
      by (auto simp: consume_def extendOrClose_def openChunk_addition)
    have "loopInv as' ds editOffset' current' chunks'"
      using wls sep after dels new_spans res ld
      by (auto simp: loopInv_def chunksOrdered_def)
    with res new_in None \<open>chunks = []\<close> show ?thesis by simp
  next
    case (Some c)
    with inv have ord: "chunksOrdered (chunks @ [c])"
      and off: "origTo c + editOffset = editTo c"
      and adds: "origTo c \<le> line (from_pos r)"
      and cdels: "\<forall>d \<in> set ds. editTo c \<le> line (from_pos d)"
      by (auto simp: loopInv_def)
    from ord have cspans: "chunkSpans c" by (simp add: chunksOrdered_def)
    show ?thesis
    proof (cases "inOrig c (line (from_pos r))")
      case True
      with adds have at_end: "line (from_pos r) = origTo c" by (simp add: inOrig_def)
      let ?ext = "c\<lparr>origTo := max (origTo c) (line (to_pos r) + 1)\<rparr>"
      from Some True step have res: "editOffset' = editOffset - linediff r"
          "current' = Some ?ext" "chunks' = chunks"
        by (auto simp: consume_def extendOrClose_def)
      have ext: "chunkExtends c ?ext" by (simp add: chunkExtends_def)
      have ord': "chunksOrdered (chunks @ [?ext])"
        using ord ext by (rule chunksOrdered_replace_last)
      have "loopInv as' ds editOffset' current' chunks'"
        using wls sep after cdels res ld ord' off at_end span
        by (auto simp: loopInv_def)
      moreover have "rangeInOrig ?ext r"
        using True span by (auto simp: rangeInOrig_def inOrig_def)
      ultimately show ?thesis using res ext Some by simp
    next
      case False
      with adds cspans have gap: "origTo c < line (from_pos r)"
        by (auto simp: inOrig_def chunkSpans_def)
      from Some False step wl have res: "editOffset' = editOffset - linediff r"
          "current' = Some ?new" "chunks' = chunks @ [c]"
        by (auto simp: consume_def extendOrClose_def openChunk_addition)
      have before: "chunkBefore c ?new"
        using gap off by (simp add: chunkBefore_def)
      have ord': "chunksOrdered ((chunks @ [c]) @ [?new])"
        using ord before new_spans by (rule chunksOrdered_snoc)
      have "loopInv as' ds editOffset' current' chunks'"
        using wls sep after dels res ld ord'
        by (auto simp: loopInv_def)
      with res new_in Some show ?thesis by simp
    qed
  qed
qed


lemma step_deletion:
  assumes inv: "loopInv as (r # ds') editOffset current chunks"
    and take: "\<forall>ra rest. as = ra # rest \<longrightarrow> \<not> takeAddition ra r editOffset"
    and step: "consume False r editOffset current chunks = (editOffset', current', chunks')"
  shows "\<exists>c'. current' = Some c' \<and> loopInv as ds' editOffset' current' chunks' \<and>
           rangeInEdit c' r \<and>
           ((chunks' = chunks \<and> (\<forall>c. current = Some c \<longrightarrow> chunkExtends c c')) \<or>
            (\<exists>c. current = Some c \<and> chunks' = chunks @ [c]))"
proof -
  from inv have wl: "wholeLine r" and wls: "list_all wholeLine as" "list_all wholeLine ds'"
    and sep: "separated as" "separated ds'"
    and after: "\<forall>d \<in> set ds'. line (to_pos r) < line (from_pos d)"
    by (auto simp: loopInv_def separated_Cons)
  from wl have span: "line (from_pos r) \<le> line (to_pos r)" and col: "ch (from_pos r) = 0"
    by (simp_all add: wholeLine_def)
  have ld: "linediff r = line (to_pos r) - line (from_pos r) + 1"
    using wl by (simp add: wholeLine_offsets)
  have adds: "\<forall>a \<in> set as. line (from_pos r) - editOffset \<le> line (from_pos a)"
  proof (cases as)
    case Nil
    then show ?thesis by simp
  next
    case (Cons ra rest)
    with take have "\<not> takeAddition ra r editOffset" by simp
    moreover from wls(1) Cons have "ch (from_pos ra) = 0" by (simp add: wholeLine_def)
    ultimately have first: "line (from_pos r) - editOffset \<le> line (from_pos ra)"
      using col by (auto simp: takeAddition_def)
    from wls(1) sep(1) Cons have "\<forall>a \<in> set rest. line (from_pos ra) < line (from_pos a)"
      using later_ranges_from by blast
    with first Cons show ?thesis by auto
  qed
  let ?new = "Chunk_new (line (from_pos r)) (line (to_pos r) + 1)
       (line (from_pos r) - editOffset) (line (from_pos r) - editOffset)"
  have new_in: "rangeInEdit ?new r"
    using span by (simp add: rangeInEdit_def inEdit_def)
  have new_spans: "chunkSpans ?new"
    using span by (simp add: chunkSpans_def)
  show ?thesis
  proof (cases current)
    case None
    with inv have "chunks = []" by (simp add: loopInv_def)
    with None step wl have res: "editOffset' = editOffset + linediff r" "current' = Some ?new"
        "chunks' = []"
      by (auto simp: consume_def extendOrClose_def openChunk_deletion)
    have "loopInv as ds' editOffset' current' chunks'"
      using wls sep after adds new_spans res ld
      by (auto simp: loopInv_def chunksOrdered_def)
    with res new_in None \<open>chunks = []\<close> show ?thesis by simp
  next
    case (Some c)
    with inv have ord: "chunksOrdered (chunks @ [c])"
      and off: "origTo c + editOffset = editTo c"
      and dels: "editTo c \<le> line (from_pos r)"
      and cadds: "\<forall>a \<in> set as. origTo c \<le> line (from_pos a)"
      by (auto simp: loopInv_def)
    from ord have cspans: "chunkSpans c" by (simp add: chunksOrdered_def)
    show ?thesis
    proof (cases "inEdit c (line (from_pos r))")
      case True
      with dels have at_end: "line (from_pos r) = editTo c" by (simp add: inEdit_def)
      let ?ext = "c\<lparr>editTo := max (editTo c) (line (to_pos r) + 1)\<rparr>"
      from Some True step have res: "editOffset' = editOffset + linediff r"
          "current' = Some ?ext" "chunks' = chunks"
        by (auto simp: consume_def extendOrClose_def)
      have ext: "chunkExtends c ?ext" by (simp add: chunkExtends_def)
      have ord': "chunksOrdered (chunks @ [?ext])"
        using ord ext by (rule chunksOrdered_replace_last)
      have "loopInv as ds' editOffset' current' chunks'"
        using wls sep after cadds res ld ord' off at_end span
        by (auto simp: loopInv_def)
      moreover have "rangeInEdit ?ext r"
        using True span by (auto simp: rangeInEdit_def inEdit_def)
      ultimately show ?thesis using res ext Some by simp
    next
      case False
      with dels cspans have gap: "editTo c < line (from_pos r)"
        by (auto simp: inEdit_def chunkSpans_def)
      from Some False step wl have res: "editOffset' = editOffset + linediff r"
          "current' = Some ?new" "chunks' = chunks @ [c]"
        by (auto simp: consume_def extendOrClose_def openChunk_deletion)
      have before: "chunkBefore c ?new"
        using gap off by (simp add: chunkBefore_def)
      have ord': "chunksOrdered ((chunks @ [c]) @ [?new])"
        using ord before new_spans by (rule chunksOrdered_snoc)
      have "loopInv as ds' editOffset' current' chunks'"
        using wls sep after adds res ld ord'
        by (auto simp: loopInv_def)
      with res new_in Some show ?thesis by simp
    qed
  qed
qed

lemma chunkExtends_trans:
  "chunkExtends c c' \<Longrightarrow> chunkExtends c' c'' \<Longrightarrow> chunkExtends c c''"
  by (auto simp: chunkExtends_def)

lemma chunkExtends_refl: "chunkExtends c c"
  by (simp add: chunkExtends_def)

lemma rangeInOrig_extends: "rangeInOrig c r \<Longrightarrow> chunkExtends c c' \<Longrightarrow> rangeInOrig c' r"
  by (auto simp: rangeInOrig_def inOrig_def chunkExtends_def)

lemma rangeInEdit_extends: "rangeInEdit c r \<Longrightarrow> chunkExtends c c' \<Longrightarrow> rangeInEdit c' r"
  by (auto simp: rangeInEdit_def inEdit_def chunkExtends_def)

lemma loopResult_step:
  assumes res: "loopResult as' ds' (Some c') chunks' result"
    and hist: "(chunks' = chunks \<and> (\<forall>c. current = Some c \<longrightarrow> chunkExtends c c')) \<or>
               (\<exists>c. current = Some c \<and> chunks' = chunks @ [c])"
    and cover: "\<forall>a \<in> set as. a \<in> set as' \<or> rangeInOrig c' a"
               "\<forall>d \<in> set ds. d \<in> set ds' \<or> rangeInEdit c' d"
  shows "loopResult as ds current chunks result"
proof -
  from res obtain rest where rest: "result = chunks' @ rest" "chunksOrdered result"
      "rest \<noteq> []" "chunkExtends c' (hd rest)"
      "\<forall>a \<in> set as'. \<exists>c \<in> set rest. rangeInOrig c a"
      "\<forall>d \<in> set ds'. \<exists>c \<in> set rest. rangeInEdit c d"
    by (auto simp: loopResult_def)
  from rest(3) have hd_in: "hd rest \<in> set rest" by simp
  have adds: "\<forall>a \<in> set as. \<exists>c \<in> set rest. rangeInOrig c a"
    using cover(1) rest(4,5) hd_in rangeInOrig_extends by blast
  have dels: "\<forall>d \<in> set ds. \<exists>c \<in> set rest. rangeInEdit c d"
    using cover(2) rest(4,6) hd_in rangeInEdit_extends by blast
  from hist show ?thesis
  proof
    assume same: "chunks' = chunks \<and> (\<forall>c. current = Some c \<longrightarrow> chunkExtends c c')"
    then have "\<forall>c. current = Some c \<longrightarrow> rest \<noteq> [] \<and> chunkExtends c (hd rest)"
      using rest(3,4) chunkExtends_trans by blast
    with same rest(1,2) adds dels show ?thesis
      unfolding loopResult_def by blast
  next
    assume "\<exists>c. current = Some c \<and> chunks' = chunks @ [c]"
    then obtain c where c: "current = Some c" "chunks' = chunks @ [c]" by blast
    let ?rest = "c # rest"
    have "result = chunks @ ?rest" using rest(1) c(2) by simp
    moreover have "\<forall>c0. current = Some c0 \<longrightarrow> ?rest \<noteq> [] \<and> chunkExtends c0 (hd ?rest)"
      using c(1) by (simp add: chunkExtends_refl)
    moreover have "\<forall>a \<in> set as. \<exists>c \<in> set ?rest. rangeInOrig c a" using adds by auto
    moreover have "\<forall>d \<in> set ds. \<exists>c \<in> set ?rest. rangeInEdit c d" using dels by auto
    ultimately show ?thesis
      using rest(2) unfolding loopResult_def by blast
  qed
qed


lemma getChunks_loop_result:
  "loopInv as ds editOffset current chunks \<Longrightarrow>
   loopResult as ds current chunks (getChunks_loop as ds editOffset current chunks)"
proof (induction as ds editOffset current chunks rule: getChunks_loop.induct)
  case (1 as ds editOffset current chunks)
  show ?case
  proof (cases "chooseNext as ds editOffset")
    case None
    then have empty: "as = []" "ds = []" by (cases as; cases ds; auto split: if_splits)+
    show ?thesis
    proof (cases current)
      case None
      with "1.prems" empty show ?thesis
        by (simp add: loopInv_def loopResult_def getChunks_loop_done chunksOrdered_def)
    next
      case (Some c)
      with "1.prems" have "chunksOrdered (chunks @ [c])" by (simp add: loopInv_def)
      with Some empty show ?thesis
        by (simp add: loopResult_def getChunks_loop_done chunkExtends_refl)
    qed
  next
    case (Some choice)
    obtain isAdd r as' ds' where choice: "choice = (isAdd, r, as', ds')"
      by (cases choice) auto
    obtain editOffset' current' chunks' where
      step: "consume isAdd r editOffset current chunks = (editOffset', current', chunks')"
      by (cases "consume isAdd r editOffset current chunks") auto
    have unfold: "getChunks_loop as ds editOffset current chunks =
        getChunks_loop as' ds' editOffset' current' chunks'"
      using Some choice step by (simp add: getChunks_loop_step)
    have next_case: "(isAdd \<and> as = r # as' \<and> ds' = ds \<and>
            (\<forall>rd rest. ds = rd # rest \<longrightarrow> takeAddition r rd editOffset)) \<or>
         (\<not> isAdd \<and> ds = r # ds' \<and> as' = as \<and>
            (\<forall>ra rest. as = ra # rest \<longrightarrow> \<not> takeAddition ra r editOffset))"
      using Some choice chooseNext_cases by blast
    have "\<exists>c'. current' = Some c' \<and> loopInv as' ds' editOffset' current' chunks' \<and>
           (\<forall>a \<in> set as. a \<in> set as' \<or> rangeInOrig c' a) \<and>
           (\<forall>d \<in> set ds. d \<in> set ds' \<or> rangeInEdit c' d) \<and>
           ((chunks' = chunks \<and> (\<forall>c. current = Some c \<longrightarrow> chunkExtends c c')) \<or>
            (\<exists>c. current = Some c \<and> chunks' = chunks @ [c]))"
    proof (cases isAdd)
      case True
      with next_case have a: "as = r # as'" "ds' = ds"
        "\<forall>rd rest. ds = rd # rest \<longrightarrow> takeAddition r rd editOffset" by auto
      from True step have step': "consume True r editOffset current chunks =
          (editOffset', current', chunks')" by simp
      from step_addition [OF "1.prems" [unfolded a(1)] a(3) step']
      show ?thesis using a by auto
    next
      case False
      with next_case have d: "ds = r # ds'" "as' = as"
        "\<forall>ra rest. as = ra # rest \<longrightarrow> \<not> takeAddition ra r editOffset" by auto
      from False step have step': "consume False r editOffset current chunks =
          (editOffset', current', chunks')" by simp
      from step_deletion [OF "1.prems" [unfolded d(1)] d(3) step']
      show ?thesis using d by auto
    qed
    then obtain c' where c': "current' = Some c'"
      and inv': "loopInv as' ds' editOffset' current' chunks'"
      and cover: "\<forall>a \<in> set as. a \<in> set as' \<or> rangeInOrig c' a"
                 "\<forall>d \<in> set ds. d \<in> set ds' \<or> rangeInEdit c' d"
      and hist: "(chunks' = chunks \<and> (\<forall>c. current = Some c \<longrightarrow> chunkExtends c c')) \<or>
            (\<exists>c. current = Some c \<and> chunks' = chunks @ [c])"
      by blast
    have "loopResult as' ds' current' chunks'
            (getChunks_loop as' ds' editOffset' current' chunks')"
      using "1.IH" [OF Some [unfolded choice] refl refl refl step [symmetric] refl inv'] .
    then have "loopResult as ds current chunks
            (getChunks_loop as' ds' editOffset' current' chunks')"
      unfolding c' using hist cover by (rule loopResult_step)
    with unfold show ?thesis by simp
  qed
qed

lemma exactly_one:
  assumes "sorted_wrt R cs" and "\<And>x y. R x y \<Longrightarrow> \<not> (P x \<and> P y)" and "\<exists>c \<in> set cs. P c"
  shows "length (filter P cs) = 1"
  using assms(1,3)
proof (induction cs)
  case Nil
  then show ?case by simp
next
  case (Cons c cs)
  show ?case
  proof (cases "P c")
    case True
    with Cons.prems(1) assms(2) have "\<forall>y \<in> set cs. \<not> P y" by auto
    then have "filter P cs = []" by (simp add: filter_empty_conv)
    with True show ?thesis by simp
  next
    case False
    with Cons show ?thesis by auto
  qed
qed

lemma chunksOrdered_ascending: "chunksOrdered cs \<Longrightarrow> chunksAscending cs"
  unfolding chunksOrdered_def chunksAscending_def
proof (elim conjE)
  assume chain: "sorted_wrt chunkBefore cs" and spans: "list_all chunkSpans cs"
  from chain show "sorted_wrt (\<lambda>c c'. editFrom c < editFrom c' \<and> editTo c < editTo c' \<and>
      origFrom c < origFrom c' \<and> origTo c < origTo c') cs"
  proof (rule sorted_wrt_mono_rel [rotated])
    fix c c'
    assume "c \<in> set cs" "c' \<in> set cs" "chunkBefore c c'"
    with spans show "editFrom c < editFrom c' \<and> editTo c < editTo c' \<and>
        origFrom c < origFrom c' \<and> origTo c < origTo c'"
      by (auto simp: list_all_iff chunkBefore_def chunkSpans_def)
  qed
qed

lemma chunksOrdered_disjoint: "chunksOrdered cs \<Longrightarrow> chunksDisjoint cs"
  unfolding chunksOrdered_def chunksDisjoint_def
proof (elim conjE)
  assume chain: "sorted_wrt chunkBefore cs" and spans: "list_all chunkSpans cs"
  from chain show "sorted_wrt (\<lambda>c c'. \<not> sharesEditLine c c' \<and> \<not> sharesOrigLine c c') cs"
  proof (rule sorted_wrt_mono_rel [rotated])
    fix c c'
    assume "c \<in> set cs" "c' \<in> set cs" "chunkBefore c c'"
    with spans show "\<not> sharesEditLine c c' \<and> \<not> sharesOrigLine c c'"
      by (auto simp: list_all_iff chunkBefore_def chunkSpans_def sharesEditLine_def
            sharesOrigLine_def)
  qed
qed

text \<open>
  Separated whole-line ranges are among the lists the claim speaks of: they are sorted
  by position and do not overlap.
\<close>

lemma separated_sortedRanges:
  assumes "list_all wholeLine rs" and "list_all (\<lambda>r. 0 \<le> ch (to_pos r)) rs"
    and "separated rs"
  shows "sortedRanges rs"
proof -
  have "list_all (\<lambda>r. posLe (from_pos r) (to_pos r)) rs"
    using assms(1,2) by (auto simp: list_all_iff wholeLine_def posLe_def)
  moreover have "sorted_wrt (\<lambda>r r'. posLe (to_pos r) (from_pos r')) rs"
    using assms(3) unfolding separated_def
    by (rule sorted_wrt_mono_rel [rotated]) (simp add: posLe_def)
  ultimately show ?thesis by (simp add: sortedRanges_def)
qed

text \<open>
  Claim C1, amended: for every model whose additions and deletions are whole-line
  ranges (column 0, \<^verbatim>\<open>chunkStartLine\<close> and \<^verbatim>\<open>endsOnNewline\<close> set), each list separated
  (every range starts on a later line than the earlier ones end on), the chunks of
  \<^verbatim>\<open>getChunks()\<close> are pairwise non-overlapping and strictly ascending in
  \<^verbatim>\<open>editFrom\<close>, \<^verbatim>\<open>editTo\<close>, \<^verbatim>\<open>origFrom\<close> and \<^verbatim>\<open>origTo\<close>; the lines of every
  addition lie in the orig span of exactly one chunk and the lines of every deletion in
  the edit span of exactly one chunk.
\<close>

theorem getChunks_whole_lines:
  assumes "list_all wholeLine (additions m)" and "list_all wholeLine (deletions m)"
    and "separated (additions m)" and "separated (deletions m)"
  shows "chunksDisjoint (getChunks m) \<and> chunksAscending (getChunks m) \<and>
         (\<forall>a \<in> set (additions m). length (filter (\<lambda>c. rangeInOrig c a) (getChunks m)) = 1) \<and>
         (\<forall>d \<in> set (deletions m). length (filter (\<lambda>c. rangeInEdit c d) (getChunks m)) = 1)"
proof -
  from assms have "loopInv (additions m) (deletions m) 0 None []"
    by (simp add: loopInv_def)
  then have "loopResult (additions m) (deletions m) None [] (getChunks m)"
    unfolding getChunks_def by (rule getChunks_loop_result)
  then have ord: "chunksOrdered (getChunks m)"
    and adds: "\<forall>a \<in> set (additions m). \<exists>c \<in> set (getChunks m). rangeInOrig c a"
    and dels: "\<forall>d \<in> set (deletions m). \<exists>c \<in> set (getChunks m). rangeInEdit c d"
    by (auto simp: loopResult_def)
  from ord have chain: "sorted_wrt chunkBefore (getChunks m)"
    and spans: "list_all chunkSpans (getChunks m)"
    by (simp_all add: chunksOrdered_def)
  have "length (filter (\<lambda>c. rangeInOrig c a) (getChunks m)) = 1" if "a \<in> set (additions m)" for a
  proof (rule exactly_one [OF chain])
    show "\<not> (rangeInOrig x a \<and> rangeInOrig y a)" if "chunkBefore x y" for x y
      using that by (auto simp: chunkBefore_def rangeInOrig_def inOrig_def)
    show "\<exists>c \<in> set (getChunks m). rangeInOrig c a" using adds that by blast
  qed
  moreover
  have "length (filter (\<lambda>c. rangeInEdit c d) (getChunks m)) = 1" if "d \<in> set (deletions m)" for d
  proof (rule exactly_one [OF chain])
    show "\<not> (rangeInEdit x d \<and> rangeInEdit y d)" if "chunkBefore x y" for x y
      using that by (auto simp: chunkBefore_def rangeInEdit_def inEdit_def)
    show "\<exists>c \<in> set (getChunks m). rangeInEdit c d" using dels that by blast
  qed
  ultimately show ?thesis
    using ord chunksOrdered_ascending chunksOrdered_disjoint by blast
qed


theorem getChunks_whole_lines_witness:
  "StringDiffModel_new (Some two_edits_base) (Some two_edits_remote)
       [\<lparr>raw_from = 0, raw_to = 2\<rparr>, \<lparr>raw_from = 6, raw_to = 8\<rparr>]
       [\<lparr>raw_from = 2, raw_to = 4\<rparr>, \<lparr>raw_from = 8, raw_to = 10\<rparr>] None None None =
     Inr two_edits_model \<and>
   list_all wholeLine (additions two_edits_model) \<and>
   list_all wholeLine (deletions two_edits_model) \<and>
   separated (additions two_edits_model) \<and> separated (deletions two_edits_model) \<and>
   getChunks two_edits_model = [Chunk_new 0 0 0 2, Chunk_new 1 3 3 5, Chunk_new 4 6 6 6] \<and>
   chunksDisjoint (getChunks two_edits_model) \<and>
   chunksAscending (getChunks two_edits_model) \<and>
   length (filter (\<lambda>c. rangeInOrig c
       (DiffRangePos_new (CodeMirror_Pos 3 0) (CodeMirror_Pos 4 0) True True))
     (getChunks two_edits_model)) = 1 \<and>
   length (filter (\<lambda>c. rangeInEdit c
       (DiffRangePos_new (CodeMirror_Pos 4 0) (CodeMirror_Pos 5 0) True True))
     (getChunks two_edits_model)) = 1"
proof -
  have built: "StringDiffModel_new (Some two_edits_base) (Some two_edits_remote)
       [\<lparr>raw_from = 0, raw_to = 2\<rparr>, \<lparr>raw_from = 6, raw_to = 8\<rparr>]
       [\<lparr>raw_from = 2, raw_to = 4\<rparr>, \<lparr>raw_from = 8, raw_to = 10\<rparr>] None None None =
     Inr two_edits_model"
    by (simp add: two_edits_model_def two_edits_base_def two_edits_remote_def
          StringDiffModel_new_def raw2Pos_def malformed_def raw2Pos1_def posAt_def newline_def)
  have whole: "list_all wholeLine (additions two_edits_model)"
      "list_all wholeLine (deletions two_edits_model)"
    by (simp_all add: two_edits_model_def wholeLine_def)
  have sep: "separated (additions two_edits_model)" "separated (deletions two_edits_model)"
    by (simp_all add: two_edits_model_def separated_def)
  have chunks: "getChunks two_edits_model =
      [Chunk_new 0 0 0 2, Chunk_new 1 3 3 5, Chunk_new 4 6 6 6]"
    by (simp add: two_edits_model_def chunk_simps)
  have ranges: "DiffRangePos_new (CodeMirror_Pos 3 0) (CodeMirror_Pos 4 0) True True
      \<in> set (additions two_edits_model)"
    "DiffRangePos_new (CodeMirror_Pos 4 0) (CodeMirror_Pos 5 0) True True
      \<in> set (deletions two_edits_model)"
    by (simp_all add: two_edits_model_def)
  from getChunks_whole_lines [OF whole sep] built whole sep chunks ranges
  show ?thesis by blast
qed

subsection \<open>Models without ranges have no chunks\<close>

lemma raw2Pos_Nil: "raw2Pos [] txt = Inr []"
  by (simp add: raw2Pos_def)

lemma raw2Pos_whole:
  "raw2Pos [\<lparr>raw_from = 0, raw_to = length txt\<rparr>] txt =
     Inr [raw2Pos1 txt \<lparr>raw_from = 0, raw_to = length txt\<rparr>]"
  by (simp add: raw2Pos_def malformed_def)

lemma consume_opens:
  "\<exists>editOffset' c chunks'.
     consume isAdd r editOffset current chunks = (editOffset', Some c, chunks')"
  by (simp add: consume_def split: prod.splits)

lemma getChunks_loop_open_nonempty:
  "current \<noteq> None \<Longrightarrow> getChunks_loop as ds editOffset current chunks \<noteq> []"
proof (induction as ds editOffset current chunks rule: getChunks_loop.induct)
  case (1 as ds editOffset current chunks)
  show ?case
  proof (cases "chooseNext as ds editOffset")
    case None
    with "1.prems" show ?thesis
      by (subst getChunks_loop.simps) auto
  next
    case (Some choice)
    obtain isAdd r as' ds' where choice: "choice = (isAdd, r, as', ds')"
      by (cases choice) auto
    obtain editOffset' c chunks' where
      step: "consume isAdd r editOffset current chunks = (editOffset', Some c, chunks')"
      using consume_opens by blast
    have "getChunks_loop as' ds' editOffset' (Some c) chunks' \<noteq> []"
      using "1.IH" [OF Some [unfolded choice] refl refl refl step [symmetric] refl] by simp
    then show ?thesis
      using Some choice step by (simp add: getChunks_loop_step)
  qed
qed

lemma getChunks_empty_iff:
  "getChunks_loop as ds 0 None [] = [] \<longleftrightarrow> as = [] \<and> ds = []"
proof (cases "chooseNext as ds 0")
  case None
  then have "as = [] \<and> ds = []" by (cases as; cases ds) (auto split: if_splits)
  then show ?thesis by (simp add: getChunks_loop_done)
next
  case (Some choice)
  obtain isAdd r as' ds' where choice: "choice = (isAdd, r, as', ds')"
    by (cases choice) auto
  obtain editOffset' c chunks' where
    step: "consume isAdd r 0 None [] = (editOffset', Some c, chunks')"
    using consume_opens by blast
  have "getChunks_loop as' ds' editOffset' (Some c) chunks' \<noteq> []"
    by (rule getChunks_loop_open_nonempty) simp
  moreover have "\<not> (as = [] \<and> ds = [])" using Some by auto
  ultimately show ?thesis
    using Some choice step by (simp add: getChunks_loop_step)
qed

text \<open>
  Claim C4, as stated: an unchanged model (base text equal to remote text) has no
  chunks. It fails for a model that is unchanged and still carries ranges: with base
  and remote both \<^verbatim>\<open>"aa"\<close>, the deletion of the first character and the addition of
  the last one, \<^verbatim>\<open>unchanged\<close> is true and \<^verbatim>\<open>getChunks()\<close> returns one chunk.
\<close>

theorem unchanged_model_with_chunks:
  "StringDiffModel_new (Some ''aa'') (Some ''aa'')
       [\<lparr>raw_from = 1, raw_to = 2\<rparr>] [\<lparr>raw_from = 0, raw_to = 1\<rparr>] None None None =
     Inr moved_char_model \<and>
   unchanged moved_char_model \<and>
   getChunks moved_char_model = [Chunk_new 0 1 0 1]"
  by (simp add: moved_char_model_def StringDiffModel_new_def raw2Pos_def malformed_def
        raw2Pos1_def posAt_def newline_def unchanged_def getChunks_def getChunks_loop.simps
        takeAddition_def consume_def extendOrClose_def openChunk_def linediff_def
        startOffset_def endOffset_def firstLineNew_def inOrig_def inEdit_def)

text \<open>
  Claim C4, amended: \<^verbatim>\<open>getChunks()\<close> returns the empty list exactly when the model
  has neither additions nor deletions; in particular every unchanged model that
  \<^verbatim>\<open>createDirectDiffModel\<close> builds has no chunks.
\<close>

theorem getChunks_empty_iff_no_ranges:
  "(getChunks m = [] \<longleftrightarrow> additions m = [] \<and> deletions m = []) \<and>
   (createDirectDiffModel E b r = Inr m \<and> unchanged m \<longrightarrow> getChunks m = [])"
proof -
  have first: "getChunks m = [] \<longleftrightarrow> additions m = [] \<and> deletions m = []"
    by (simp add: getChunks_def getChunks_empty_iff)
  have "additions m = [] \<and> deletions m = []"
    if "createDirectDiffModel E b r = Inr m" and "unchanged m"
    using that
    by (auto simp: createDirectDiffModel_def StringDiffModel_new_def raw2Pos_Nil raw2Pos_whole
          unchanged_def Let_def split: if_splits)
  with first show ?thesis by blast
qed

theorem getChunks_empty_witness:
  "createDirectDiffModel example_externals (JStr ''a'') (JStr ''a'') = Inr same_a_model \<and>
   unchanged same_a_model \<and> getChunks same_a_model = []"
proof -
  have built: "createDirectDiffModel example_externals (JStr ''a'') (JStr ''a'') =
      Inr same_a_model"
    by (simp add: createDirectDiffModel_def StringDiffModel_new_def raw2Pos_Nil asString_def
          Let_def same_a_model_def)
  have same: "unchanged same_a_model"
    by (simp add: unchanged_def same_a_model_def)
  from getChunks_empty_iff_no_ranges [of same_a_model example_externals "JStr ''a''" "JStr ''a''"]
    built same show ?thesis by blast
qed

section \<open>Properties of the direct factory\<close>

text \<open>
  Claim C3, as stated: for base \<^verbatim>\<open>null\<close> and remote \<^verbatim>\<open>"hello\nworld"\<close> the single
  chunk has \<^verbatim>\<open>origFrom\<close> equal to \<^verbatim>\<open>origTo\<close>. The chunk that \<^verbatim>\<open>getChunks()\<close> returns
  is \<^verbatim>\<open>Chunk(0, 1, 0, 2)\<close>: the builder puts the lines of an addition on the orig side.
\<close>

theorem hello_world_orig_span_not_zero_width:
  "createDirectDiffModel example_externals JNull (JStr hello_world) = Inr hello_world_model \<and>
   getChunks hello_world_model = [Chunk_new 0 1 0 2] \<and>
   origFrom (Chunk_new 0 1 0 2) \<noteq> origTo (Chunk_new 0 1 0 2)"
  by (simp add: createDirectDiffModel_def asString_def StringDiffModel_new_def raw2Pos_def
        malformed_def raw2Pos1_def posAt_def hello_world_def newline_def hello_world_model_def
        getChunks_def getChunks_loop.simps consume_def extendOrClose_def openChunk_def
        linediff_def startOffset_def endOffset_def firstLineNew_def)

text \<open>
  The same holds whatever the translation of the raw range makes of the columns and
  the two flags: an addition from line 0 to line 1 opens a chunk whose orig span is
  not zero-width.
\<close>

lemma two_line_addition_orig_span:
  "line (from_pos r) = 0 \<Longrightarrow> line (to_pos r) = 1 \<Longrightarrow>
   \<exists>c. getChunks_loop [r] [] 0 None [] = [c] \<and> origFrom c < origTo c"
  by (simp add: getChunks_loop.simps consume_def extendOrClose_def openChunk_def
        linediff_def startOffset_def endOffset_def firstLineNew_def)

text \<open>
  Claim C3, amended: for base \<^verbatim>\<open>null\<close> and remote \<^verbatim>\<open>"hello\nworld"\<close>,
  \<^verbatim>\<open>createDirectDiffModel\<close> passes exactly one raw addition \<^verbatim>\<open>{from: 0, to: 11}\<close> and
  no deletion to the constructor; the model has one addition from line 0 to line 1 and
  no deletions, and \<^verbatim>\<open>getChunks()\<close> returns exactly one chunk, with \<^verbatim>\<open>editFrom = 0\<close>,
  \<^verbatim>\<open>editTo = 1\<close>, \<^verbatim>\<open>origFrom = 0\<close> and \<^verbatim>\<open>origTo = 2\<close>.
\<close>

theorem hello_world_added:
  "createDirectDiffModel E JNull (JStr hello_world) =
     StringDiffModel_new None (Some hello_world) [\<lparr>raw_from = 0, raw_to = 11\<rparr>] []
       None None None \<and>
   createDirectDiffModel E JNull (JStr hello_world) = Inr hello_world_model \<and>
   getChunks hello_world_model = [Chunk_new 0 1 0 2]"
proof -
  have len: "length hello_world = 11" by (simp add: hello_world_def)
  have built: "createDirectDiffModel E JNull (JStr hello_world) =
     StringDiffModel_new None (Some hello_world) [\<lparr>raw_from = 0, raw_to = 11\<rparr>] []
       None None None"
    by (simp add: createDirectDiffModel_def asString_def len)
  have pos: "raw2Pos [\<lparr>raw_from = 0, raw_to = 11\<rparr>] hello_world =
     Inr [DiffRangePos_new (CodeMirror_Pos 0 0) (CodeMirror_Pos 1 5) True False]"
    by (simp add: raw2Pos_def malformed_def raw2Pos1_def posAt_def hello_world_def newline_def)
  have model: "StringDiffModel_new None (Some hello_world) [\<lparr>raw_from = 0, raw_to = 11\<rparr>] []
       None None None = Inr hello_world_model"
    by (simp add: StringDiffModel_new_def pos hello_world_model_def)
  have "getChunks_loop
      [DiffRangePos_new (CodeMirror_Pos 0 0) (CodeMirror_Pos 1 5) True False] [] 0 None [] =
      [Chunk_new 0 1 0 2]"
    by (simp add: getChunks_loop.simps consume_def extendOrClose_def openChunk_def
          linediff_def startOffset_def endOffset_def firstLineNew_def)
  then have "getChunks hello_world_model = [Chunk_new 0 1 0 2]"
    by (simp add: getChunks_def hello_world_model_def)
  with built model show ?thesis by simp
qed

theorem hello_world_added_witness:
  "createDirectDiffModel example_externals JNull (JStr hello_world) = Inr hello_world_model \<and>
   getChunks hello_world_model = [Chunk_new 0 1 0 2]"
  using hello_world_added [of example_externals] by blast

text \<open>
  Claim C5, as stated: for every value \<^verbatim>\<open>X\<close>, \<^verbatim>\<open>createDirectDiffModel(X, X)\<close> has no
  ranges and is unchanged. It fails for \<^verbatim>\<open>X = null\<close>: the test \<^verbatim>\<open>base === null\<close> comes
  first, so the model is an addition of the stringified remote, with one addition, and
  \<^verbatim>\<open>unchanged\<close> is false.
\<close>

theorem createDirectDiffModel_null_null:
  "createDirectDiffModel example_externals JNull JNull = Inr null_null_model \<and>
   additions null_null_model \<noteq> [] \<and> \<not> unchanged null_null_model"
  by (simp add: createDirectDiffModel_def StringDiffModel_new_def raw2Pos_def malformed_def
        raw2Pos1_def posAt_def newline_def unchanged_def asString_def example_externals_def
        null_null_model_def)

text \<open>
  Claim C5, amended: for every value \<^verbatim>\<open>X\<close> other than \<^verbatim>\<open>null\<close>,
  \<^verbatim>\<open>createDirectDiffModel(X, X)\<close> yields a model whose additions and deletions are
  empty and whose \<^verbatim>\<open>unchanged\<close> is true. (\<^verbatim>\<open>stringify\<close> returns a string for every
  value, as section 6 of the specification gives it.)
\<close>

theorem createDirectDiffModel_same_value:
  "X \<noteq> JNull \<Longrightarrow>
     \<exists>m. createDirectDiffModel E X X = Inr m \<and> additions m = [] \<and> deletions m = [] \<and>
         unchanged m"
  by (simp add: createDirectDiffModel_def StringDiffModel_new_def raw2Pos_Nil unchanged_def
        Let_def)

theorem createDirectDiffModel_same_value_witness:
  "JStr ''x = 1'' \<noteq> JNull \<and>
   (\<exists>m. createDirectDiffModel example_externals (JStr ''x = 1'') (JStr ''x = 1'') = Inr m \<and>
        additions m = [] \<and> deletions m = [] \<and> unchanged m)"
  using createDirectDiffModel_same_value [of "JStr ''x = 1''" example_externals] by simp

text \<open>
  Claim C6. \<^verbatim>\<open>createDirectDiffModel(base, remote)\<close> fails if and only if both values
  are non-null and their stringified forms differ, and the failure is the thrown
  message. With a null base and a non-null remote it builds a pure addition (no base, no
  deletions, one addition spanning the remote); with a null remote and a non-null base a
  pure deletion; with two non-null values of equal stringified form an unchanged model
  without ranges.
\<close>

theorem createDirectDiffModel_cases:
  "(isl (createDirectDiffModel E b r) \<longleftrightarrow>
      b \<noteq> JNull \<and> r \<noteq> JNull \<and> asString E b \<noteq> asString E r) \<and>
   (b \<noteq> JNull \<and> r \<noteq> JNull \<and> asString E b \<noteq> asString E r \<longrightarrow>
      createDirectDiffModel E b r = Inl InvalidArguments) \<and>
   (b = JNull \<and> r \<noteq> JNull \<longrightarrow>
      (\<exists>m. createDirectDiffModel E b r = Inr m \<and> added m \<and> \<not> deleted m \<and>
           base m = None \<and> remote m = Some (asString E r) \<and> deletions m = [] \<and>
           additions m =
             [raw2Pos1 (asString E r) \<lparr>raw_from = 0, raw_to = length (asString E r)\<rparr>])) \<and>
   (b \<noteq> JNull \<and> r = JNull \<longrightarrow>
      (\<exists>m. createDirectDiffModel E b r = Inr m \<and> deleted m \<and> \<not> added m \<and>
           base m = Some (asString E b) \<and> remote m = None \<and> additions m = [] \<and>
           deletions m =
             [raw2Pos1 (asString E b) \<lparr>raw_from = 0, raw_to = length (asString E b)\<rparr>])) \<and>
   (b \<noteq> JNull \<and> r \<noteq> JNull \<and> asString E b = asString E r \<longrightarrow>
      (\<exists>m. createDirectDiffModel E b r = Inr m \<and> unchanged m \<and> \<not> added m \<and> \<not> deleted m \<and>
           base m = Some (asString E b) \<and> remote m = Some (asString E r) \<and>
           additions m = [] \<and> deletions m = []))"
  by (simp add: createDirectDiffModel_def StringDiffModel_new_def raw2Pos_Nil raw2Pos_whole
        added_def deleted_def unchanged_def Let_def)

theorem createDirectDiffModel_cases_witness:
  "createDirectDiffModel example_externals (JStr ''a'') (JStr ''b'') = Inl InvalidArguments \<and>
   isl (createDirectDiffModel example_externals (JStr ''a'') (JStr ''b'')) \<and>
   (\<exists>m. createDirectDiffModel example_externals JNull (JStr ''b'') = Inr m \<and> added m \<and>
        deletions m = []) \<and>
   (\<exists>m. createDirectDiffModel example_externals (JStr ''a'') JNull = Inr m \<and> deleted m \<and>
        additions m = []) \<and>
   (\<exists>m. createDirectDiffModel example_externals (JStr ''a'') (JStr ''a'') = Inr m \<and>
        unchanged m \<and> additions m = [] \<and> deletions m = [])"
  using createDirectDiffModel_cases [of example_externals "JStr ''a''" "JStr ''b''"]
        createDirectDiffModel_cases [of example_externals JNull "JStr ''b''"]
        createDirectDiffModel_cases [of example_externals "JStr ''a''" JNull]
        createDirectDiffModel_cases [of example_externals "JStr ''a''" "JStr ''a''"]
  by (auto simp: asString_def)


section \<open>Properties of the output diff model\<close>

lemmas path_simps = getMemberByPath.simps getMemberByPath_f.simps beforeDot_def afterDot_def

lemmas string_model_simps =
  createDirectDiffModel_def createPatchDiffModel_def StringDiffModel_new_def asString_def
  raw2Pos_def malformed_def raw2Pos1_def posAt_def newline_def Let_def

text \<open>
  Claim C8. A model constructed with a falsy \<^verbatim>\<open>remote\<close> and a list of diff entries has
  as its \<^verbatim>\<open>remote\<close> the result of \<^verbatim>\<open>patch(base, diff)\<close>: the constructor returns a
  model exactly when \<^verbatim>\<open>patch\<close> returns, and fails with its failure. This holds for
  every list of entries, the empty one included.
\<close>

theorem OutputDiffModel_remote_from_patch:
  "\<not> truthy r \<Longrightarrow>
   (\<forall>m. OutputDiffModel_new E b r (Some d) c h s = Inr m \<longrightarrow>
        ext_patch E b d = Inr (o_remote m)) \<and>
   (\<forall>r'. ext_patch E b d = Inr r' \<longrightarrow>
        (\<exists>m. OutputDiffModel_new E b r (Some d) c h s = Inr m \<and> o_remote m = r' \<and>
             o_base m = b \<and> o_diff m = Some d)) \<and>
   (\<forall>e. ext_patch E b d = Inl e \<longrightarrow> OutputDiffModel_new E b r (Some d) c h s = Inl e)"
  by (auto simp: OutputDiffModel_new_def split: sum.splits)

theorem OutputDiffModel_remote_witness:
  "\<not> truthy JNull \<and>
   ext_patch example_externals stream_a stream_diff = Inr stream_b \<and>
   (\<exists>m. OutputDiffModel_new example_externals stream_a JNull (Some stream_diff)
          None None None = Inr m \<and>
        o_remote m = stream_b \<and> o_base m = stream_a \<and> o_diff m = Some stream_diff)"
proof -
  have patched: "ext_patch example_externals stream_a stream_diff = Inr stream_b"
    by (simp add: example_externals_def example_patch_def stream_a_def stream_b_def
          stream_diff_def)
  from OutputDiffModel_remote_from_patch
         [of JNull example_externals stream_a stream_diff None None None]
    patched show ?thesis by simp
qed

text \<open>
  Claim C10. \<^verbatim>\<open>unchanged\<close> is true if and only if the model's \<^verbatim>\<open>diff\<close> is
  \<^verbatim>\<open>null\<close>. The constructor called without a diff always returns a model, with the
  base and remote it was given, whatever they are, and that model is unchanged; a model
  constructed with a list of entries, also the empty list, is not.
\<close>

theorem OutputDiffModel_unchanged_iff_no_diff:
  "(o_unchanged m \<longleftrightarrow> o_diff m = None) \<and>
   (\<exists>m'. OutputDiffModel_new E b r None c h s = Inr m' \<and> o_base m' = b \<and> o_remote m' = r \<and>
         o_diff m' = None \<and> o_unchanged m') \<and>
   (\<forall>m'. OutputDiffModel_new E b r d c h s = Inr m' \<longrightarrow> (o_unchanged m' \<longleftrightarrow> d = None))"
  by (auto simp: OutputDiffModel_new_def o_unchanged_def split: sum.splits option.splits if_splits)

theorem OutputDiffModel_unchanged_witness:
  "stream_a \<noteq> stream_b \<and>
   (\<exists>m'. OutputDiffModel_new example_externals stream_a stream_b None None None None = Inr m' \<and>
         o_base m' = stream_a \<and> o_remote m' = stream_b \<and> o_diff m' = None \<and>
         o_unchanged m')"
proof -
  have "stream_a \<noteq> stream_b" by (simp add: stream_a_def stream_b_def)
  with OutputDiffModel_unchanged_iff_no_diff
         [where E = example_externals and b = stream_a and r = stream_b and c = None
            and h = None and s = None and d = None and m = stream_model]
  show ?thesis by blast
qed

lemma stringify_with_key:
  "k \<noteq> [] \<Longrightarrow>
   stringify E m (Some k) =
     (case (if o_unchanged m \<or> o_added m \<or> o_deleted m \<or>
               getMemberByPath_f (ext_getDiffKey E) (o_diff m) k = None
            then createDirectDiffModel E (getMemberByPath (o_base m) k)
                   (getMemberByPath (o_remote m) k)
            else createPatchDiffModel E (getMemberByPath (o_base m) k)
                   (the (getMemberByPath_f (ext_getDiffKey E) (o_diff m) k))) of
        Inl e \<Rightarrow> Inl e
      | Inr model \<Rightarrow>
          (case innerMimeType m k of
             Inl e \<Rightarrow> Inl e
           | Inr mt \<Rightarrow> Inr (withHints m mt model)))"
  by (auto simp: stringify_def keyGiven_def Let_def o_unchanged_def cong: sum.case_cong)

lemma mimetype_withHints: "mimetype (withHints m mt model) = Some mt"
  by (simp add: withHints_def)

lemma stringify_result_mimetype:
  assumes "k \<noteq> []" and "stringify E m (Some k) = Inr model"
  shows "innerMimeType m k = Inr (the (mimetype model)) \<and> mimetype model \<noteq> None"
proof -
  from assms obtain pm mt where
    "innerMimeType m k = Inr mt" and "model = withHints m mt pm"
    by (auto simp: stringify_with_key split: sum.splits)
  then show ?thesis by (simp add: mimetype_withHints)
qed

lemma stringify_unknown_key:
  assumes "k \<noteq> []" and "isl (innerMimeType m k)"
  shows "isl (stringify E m (Some k))"
  using assms by (auto simp: stringify_with_key split: sum.splits)

lemma innerMimeType_data:
  "output_type m = Inr (JStr ''execute_result'') \<or> output_type m = Inr (JStr ''display_data'')
     \<Longrightarrow> innerMimeType m ''data.text/plain'' = Inr ''text/plain''"
  by (auto simp: innerMimeType_def)

lemma stringify_direct_guard:
  assumes "k \<noteq> []"
    and "o_unchanged m \<or> o_added m \<or> o_deleted m \<or>
         getMemberByPath_f (ext_getDiffKey E) (o_diff m) k = None"
    and "getMemberByPath (o_base m) k \<noteq> JNull" and "getMemberByPath (o_remote m) k \<noteq> JNull"
    and "asString E (getMemberByPath (o_base m) k) \<noteq> asString E (getMemberByPath (o_remote m) k)"
  shows "stringify E m (Some k) = Inl InvalidArguments"
proof -
  from assms(3-5) have "createDirectDiffModel E (getMemberByPath (o_base m) k)
      (getMemberByPath (o_remote m) k) = Inl InvalidArguments"
    by (auto simp: createDirectDiffModel_def Let_def)
  with assms(1,2) show ?thesis
    by (simp add: stringify_with_key)
qed

text \<open>
  Claim C9, as stated: on an execute_result output with differing
  \<^verbatim>\<open>data['text/plain']\<close> values, \<^verbatim>\<open>stringify('data.text/plain')\<close> yields a model whose
  mimetype is \<^verbatim>\<open>text/plain\<close>. It fails for the model constructed from the two outputs
  without a diff: the model is unchanged, \<^verbatim>\<open>stringify\<close> calls \<^verbatim>\<open>createDirectDiffModel\<close>
  on \<^verbatim>\<open>"1"\<close> and \<^verbatim>\<open>"2"\<close>, and that throws.
\<close>

theorem stringify_differing_values_fails:
  "OutputDiffModel_new example_externals result_1 result_2 None None None None =
     Inr result_nodiff_model \<and>
   output_type result_nodiff_model = Inr (JStr ''execute_result'') \<and>
   getMemberByPath (o_base result_nodiff_model) ''data.text/plain'' = JStr ''1'' \<and>
   getMemberByPath (o_remote result_nodiff_model) ''data.text/plain'' = JStr ''2'' \<and>
   stringify example_externals result_nodiff_model (Some ''data.text/plain'') =
     Inl InvalidArguments"
  by (simp add: OutputDiffModel_new_def result_nodiff_model_def output_type_def result_1_def
        result_2_def path_simps stringify_def keyGiven_def o_unchanged_def
        createDirectDiffModel_def asString_def Let_def)

text \<open>
  Claim C9, amended. For a non-empty key, the mimetype of every model that
  \<^verbatim>\<open>stringify(key)\<close> returns is the one \<^verbatim>\<open>innerMimeType(key)\<close> resolves from the
  output's declared type, and a key for which \<^verbatim>\<open>innerMimeType\<close> raises makes
  \<^verbatim>\<open>stringify\<close> fail. On an execute_result (or display_data) output every model returned
  for the key \<^verbatim>\<open>data.text/plain\<close> has the mimetype \<^verbatim>\<open>text/plain\<close>, and such a model is
  returned whenever the model is neither added nor deleted, its diff holds entries at
  that path and the patch of the base value by them succeeds. When the values at the
  key differ (both non-null, stringified forms unequal) and the model is unchanged, added
  or deleted or its diff holds nothing at the key, \<^verbatim>\<open>stringify\<close> fails with the error of
  \<^verbatim>\<open>createDirectDiffModel\<close>.
\<close>

theorem stringify_mimetype:
  "(\<forall>model. k \<noteq> [] \<and> stringify E m (Some k) = Inr model \<longrightarrow>
       innerMimeType m k = Inr (the (mimetype model)) \<and> mimetype model \<noteq> None) \<and>
   (k \<noteq> [] \<and> isl (innerMimeType m k) \<longrightarrow> isl (stringify E m (Some k))) \<and>
   (\<forall>model. (output_type m = Inr (JStr ''execute_result'') \<or>
             output_type m = Inr (JStr ''display_data'')) \<and>
            stringify E m (Some ''data.text/plain'') = Inr model \<longrightarrow>
       mimetype model = Some ''text/plain'') \<and>
   (\<forall>d pm. (output_type m = Inr (JStr ''execute_result'') \<or>
            output_type m = Inr (JStr ''display_data'')) \<and>
           \<not> o_added m \<and> \<not> o_deleted m \<and> o_diff m \<noteq> None \<and>
           getMemberByPath_f (ext_getDiffKey E) (o_diff m) ''data.text/plain'' = Some d \<and>
           createPatchDiffModel E (getMemberByPath (o_base m) ''data.text/plain'') d = Inr pm \<longrightarrow>
       stringify E m (Some ''data.text/plain'') = Inr (withHints m ''text/plain'' pm)) \<and>
   (k \<noteq> [] \<and>
    (o_unchanged m \<or> o_added m \<or> o_deleted m \<or>
     getMemberByPath_f (ext_getDiffKey E) (o_diff m) k = None) \<and>
    getMemberByPath (o_base m) k \<noteq> JNull \<and> getMemberByPath (o_remote m) k \<noteq> JNull \<and>
    asString E (getMemberByPath (o_base m) k) \<noteq> asString E (getMemberByPath (o_remote m) k) \<longrightarrow>
       stringify E m (Some k) = Inl InvalidArguments)"
proof (intro conjI allI impI)
  fix model
  assume "k \<noteq> [] \<and> stringify E m (Some k) = Inr model"
  then show "innerMimeType m k = Inr (the (mimetype model))" and "mimetype model \<noteq> None"
    using stringify_result_mimetype by blast+
next
  assume "k \<noteq> [] \<and> isl (innerMimeType m k)"
  then show "isl (stringify E m (Some k))"
    using stringify_unknown_key by blast
next
  fix model
  assume a: "(output_type m = Inr (JStr ''execute_result'') \<or>
       output_type m = Inr (JStr ''display_data'')) \<and>
      stringify E m (Some ''data.text/plain'') = Inr model"
  then have "innerMimeType m ''data.text/plain'' = Inr ''text/plain''"
    using innerMimeType_data by blast
  moreover from a have "innerMimeType m ''data.text/plain'' = Inr (the (mimetype model)) \<and>
      mimetype model \<noteq> None"
    using stringify_result_mimetype [of "''data.text/plain''" E m model] by simp
  ultimately show "mimetype model = Some ''text/plain''" by auto
next
  fix d pm
  assume a: "(output_type m = Inr (JStr ''execute_result'') \<or>
       output_type m = Inr (JStr ''display_data'')) \<and>
      \<not> o_added m \<and> \<not> o_deleted m \<and> o_diff m \<noteq> None \<and>
      getMemberByPath_f (ext_getDiffKey E) (o_diff m) ''data.text/plain'' = Some d \<and>
      createPatchDiffModel E (getMemberByPath (o_base m) ''data.text/plain'') d = Inr pm"
  then have "innerMimeType m ''data.text/plain'' = Inr ''text/plain''"
    using innerMimeType_data by blast
  with a show "stringify E m (Some ''data.text/plain'') = Inr (withHints m ''text/plain'' pm)"
    by (auto simp: stringify_with_key o_unchanged_def)
next
  assume "k \<noteq> [] \<and>
    (o_unchanged m \<or> o_added m \<or> o_deleted m \<or>
     getMemberByPath_f (ext_getDiffKey E) (o_diff m) k = None) \<and>
    getMemberByPath (o_base m) k \<noteq> JNull \<and> getMemberByPath (o_remote m) k \<noteq> JNull \<and>
    asString E (getMemberByPath (o_base m) k) \<noteq> asString E (getMemberByPath (o_remote m) k)"
  then show "stringify E m (Some k) = Inl InvalidArguments"
    using stringify_direct_guard by blast
qed

theorem stringify_mimetype_witness:
  "output_type result_model = Inr (JStr ''execute_result'') \<and>
   getMemberByPath (o_base result_model) ''data.text/plain'' = JStr ''1'' \<and>
   getMemberByPath (o_remote result_model) ''data.text/plain'' = JStr ''2'' \<and>
   stringify example_externals result_model (Some ''data.text/plain'') =
     Inr \<lparr>base = Some ''1'', remote = Some ''2'',
          additions = [DiffRangePos_new (CodeMirror_Pos 0 0) (CodeMirror_Pos 0 1) True False],
          deletions = [DiffRangePos_new (CodeMirror_Pos 0 0) (CodeMirror_Pos 0 1) True False],
          collapsible = False, collapsibleHeader = None, startCollapsed = None,
          mimetype = Some ''text/plain''\<rparr> \<and>
   isl (innerMimeType result_model ''metadata.tag'') \<and>
   isl (stringify example_externals result_model (Some ''metadata.tag''))"
proof -
  have t: "output_type result_model = Inr (JStr ''execute_result'')"
    by (simp add: output_type_def result_model_def result_1_def)
  have b: "getMemberByPath (o_base result_model) ''data.text/plain'' = JStr ''1''"
    by (simp add: path_simps result_model_def result_1_def)
  have r: "getMemberByPath (o_remote result_model) ''data.text/plain'' = JStr ''2''"
    by (simp add: path_simps result_model_def result_2_def)
  have d: "getMemberByPath_f (ext_getDiffKey example_externals) (o_diff result_model)
             ''data.text/plain'' =
           Some [DiffAddRange (KeyIndex 0) (JStr ''2''), DiffRemoveRange (KeyIndex 0) 1]"
    by (simp add: path_simps result_model_def result_diff_def example_externals_def)
  have pm: "createPatchDiffModel example_externals (JStr ''1'')
              [DiffAddRange (KeyIndex 0) (JStr ''2''), DiffRemoveRange (KeyIndex 0) 1] =
     Inr \<lparr>base = Some ''1'', remote = Some ''2'',
          additions = [DiffRangePos_new (CodeMirror_Pos 0 0) (CodeMirror_Pos 0 1) True False],
          deletions = [DiffRangePos_new (CodeMirror_Pos 0 0) (CodeMirror_Pos 0 1) True False],
          collapsible = False, collapsibleHeader = None, startCollapsed = None,
          mimetype = None\<rparr>"
    by (simp add: string_model_simps example_externals_def example_patchStringified_def)
  have flags: "\<not> o_added result_model \<and> \<not> o_deleted result_model \<and> o_diff result_model \<noteq> None"
    by (simp add: o_added_def o_deleted_def result_model_def result_1_def result_2_def)
  have unknown: "isl (innerMimeType result_model ''metadata.tag'')"
    by (simp add: innerMimeType_def t)
  from stringify_mimetype [of "''data.text/plain''" example_externals result_model]
    t b d pm flags
  have yields: "stringify example_externals result_model (Some ''data.text/plain'') =
      Inr (withHints result_model ''text/plain''
        \<lparr>base = Some ''1'', remote = Some ''2'',
          additions = [DiffRangePos_new (CodeMirror_Pos 0 0) (CodeMirror_Pos 0 1) True False],
          deletions = [DiffRangePos_new (CodeMirror_Pos 0 0) (CodeMirror_Pos 0 1) True False],
          collapsible = False, collapsibleHeader = None, startCollapsed = None,
          mimetype = None\<rparr>)"
    by simp
  from stringify_mimetype [of "''metadata.tag''" example_externals result_model] unknown
  have fails: "isl (stringify example_externals result_model (Some ''metadata.tag''))"
    by simp
  from t b r yields fails unknown show ?thesis
    by (simp add: withHints_def result_model_def)
qed

text \<open>
  Claim C7, as stated: when the lookup of the key in the diff yields nothing and the
  base and remote sub-values are resolvable, \<^verbatim>\<open>stringify(key)\<close> succeeds with the direct
  model. It fails in two ways. For the stream output whose text is replaced, the key
  \<^verbatim>\<open>text\<close> finds no diff, the sub-values are \<^verbatim>\<open>"a"\<close> and \<^verbatim>\<open>"b"\<close>, and
  \<^verbatim>\<open>createDirectDiffModel\<close> throws. For the execute_result output, the key
  \<^verbatim>\<open>metadata.tag\<close> finds no diff, both sub-values are \<^verbatim>\<open>"x"\<close>, the direct model is
  built, and \<^verbatim>\<open>innerMimeType\<close> throws.
\<close>

theorem stringify_without_diff_entry_fails:
  "getMemberByPath_f (ext_getDiffKey example_externals) (o_diff stream_model) ''text'' = None \<and>
   getMemberByPath (o_base stream_model) ''text'' = JStr ''a'' \<and>
   getMemberByPath (o_remote stream_model) ''text'' = JStr ''b'' \<and>
   stringify example_externals stream_model (Some ''text'') = Inl InvalidArguments \<and>
   getMemberByPath_f (ext_getDiffKey example_externals) (o_diff result_model) ''metadata.tag'' = None \<and>
   getMemberByPath (o_base result_model) ''metadata.tag'' = JStr ''x'' \<and>
   getMemberByPath (o_remote result_model) ''metadata.tag'' = JStr ''x'' \<and>
   stringify example_externals result_model (Some ''metadata.tag'') =
     Inl (UnknownMimeType ''metadata.tag'')"
  by (simp add: stringify_def keyGiven_def o_unchanged_def o_added_def o_deleted_def
        path_simps stream_model_def stream_a_def stream_b_def stream_diff_def
        result_model_def result_1_def result_2_def result_diff_def example_externals_def
        string_model_simps innerMimeType_def output_type_def)

text \<open>
  Claim C7, amended: for a non-empty key whose lookup in the diff yields nothing,
  \<^verbatim>\<open>stringify(key)\<close> is the direct model of the two sub-values with the mimetype of
  \<^verbatim>\<open>innerMimeType(key)\<close> and the collapse hints of the output model; it fails when
  \<^verbatim>\<open>createDirectDiffModel\<close> fails on the sub-values (both non-null, stringified forms
  unequal) and when \<^verbatim>\<open>innerMimeType(key)\<close> fails (key not recognised for the output
  type), and succeeds otherwise.
\<close>

theorem stringify_without_diff_entry:
  "k \<noteq> [] \<Longrightarrow> getMemberByPath_f (ext_getDiffKey E) (o_diff m) k = None \<Longrightarrow>
   stringify E m (Some k) =
     (case createDirectDiffModel E (getMemberByPath (o_base m) k) (getMemberByPath (o_remote m) k) of
        Inl e \<Rightarrow> Inl e
      | Inr model \<Rightarrow>
          (case innerMimeType m k of
             Inl e \<Rightarrow> Inl e
           | Inr mt \<Rightarrow> Inr (withHints m mt model)))"
  by (simp add: stringify_with_key)

theorem stringify_without_diff_entry_witness:
  "''text'' \<noteq> [] \<and>
   getMemberByPath_f (ext_getDiffKey example_externals) (o_diff renamed_model) ''text'' = None \<and>
   stringify example_externals renamed_model (Some ''text'') =
     Inr \<lparr>base = Some ''a'', remote = Some ''a'', additions = [], deletions = [],
          collapsible = False, collapsibleHeader = None, startCollapsed = None,
          mimetype = Some ''text/plain''\<rparr>"
proof -
  have absent: "getMemberByPath_f (ext_getDiffKey example_externals) (o_diff renamed_model)
      ''text'' = None"
    by (simp add: path_simps renamed_model_def example_externals_def)
  have sub: "getMemberByPath (o_base renamed_model) ''text'' = JStr ''a'' \<and>
      getMemberByPath (o_remote renamed_model) ''text'' = JStr ''a''"
    by (simp add: path_simps renamed_model_def stream_a_def stream_renamed_def)
  have direct: "createDirectDiffModel example_externals (JStr ''a'') (JStr ''a'') =
      Inr same_a_model"
    by (simp add: string_model_simps same_a_model_def)
  have mt: "innerMimeType renamed_model ''text'' = Inr ''text/plain''"
    by (simp add: innerMimeType_def output_type_def renamed_model_def stream_a_def)
  from stringify_without_diff_entry [of "''text''" example_externals renamed_model] absent
  have "stringify example_externals renamed_model (Some ''text'') =
      Inr (withHints renamed_model ''text/plain'' same_a_model)"
    by (simp add: sub direct mt)
  with absent show ?thesis
    by (simp add: withHints_def same_a_model_def renamed_model_def)
qed

end
